theory Spec2Isabelle
  imports Main "HOL-Library.Word" "HOL-Library.Sublist"
begin

section \<open>Strings of the host language\<close>

text \<open>
  A string of the source language is a sequence of 16-bit code units. Literals of the
  source that are plain ASCII are written \<open>js ''...''\<close>; the few symbols outside ASCII
  that the program prints are single code units and are given by number.
\<close>

type_synonym unit16 = "16 word"
type_synonym jsstring = "unit16 list"

definition js :: "string \<Rightarrow> jsstring" where
  "js s = map of_char s"

text \<open>\<open>Array.prototype.join\<close> on an array of strings.\<close>

fun join :: "jsstring \<Rightarrow> jsstring list \<Rightarrow> jsstring" where
  "join sep [] = []"
| "join sep [x] = x"
| "join sep (x # y # ys) = x @ sep @ join sep (y # ys)"

text \<open>\<open>String.prototype.split\<close> with a separator of one code unit: the empty string
  splits into one empty piece, and adjacent separators give empty pieces.\<close>

fun split_on :: "unit16 \<Rightarrow> jsstring \<Rightarrow> jsstring list" where
  "split_on d [] = [[]]"
| "split_on d (c # cs) =
     (if c = d then [] # split_on d cs
      else (case split_on d cs of w # ws \<Rightarrow> (c # w) # ws | [] \<Rightarrow> [[c]]))"

text \<open>\<open>String.prototype.replace\<close> with a global pattern of one literal code unit.\<close>

fun replace_all_unit :: "unit16 \<Rightarrow> jsstring \<Rightarrow> jsstring \<Rightarrow> jsstring" where
  "replace_all_unit d r [] = []"
| "replace_all_unit d r (c # cs) =
     (if c = d then r @ replace_all_unit d r cs else c # replace_all_unit d r cs)"

definition is_az :: "unit16 \<Rightarrow> bool" where
  "is_az c = (0x61 \<le> c \<and> c \<le> 0x7A)"

definition is_09 :: "unit16 \<Rightarrow> bool" where
  "is_09 c = (0x30 \<le> c \<and> c \<le> 0x39)"

text \<open>
  \<open>String.prototype.toUpperCase\<close> on Basic Latin: the letters a to z move to A to Z,
  every other ASCII unit stays. The program applies it to the first unit of each word of
  a validated project name and to the three environment names only, all of them ASCII;
  the case mapping of units beyond ASCII is not modelled (they are left as they are).
\<close>

definition toUpperCase_unit :: "unit16 \<Rightarrow> unit16" where
  "toUpperCase_unit c = (if is_az c then c - 0x20 else c)"

definition toUpperCase :: "jsstring \<Rightarrow> jsstring" where
  "toUpperCase s = map toUpperCase_unit s"

text \<open>White space and line terminators of the language: what \<open>\s\<close> matches in a
  regular expression and what \<open>trim\<close>, \<open>trimEnd\<close> remove.\<close>

definition is_space :: "unit16 \<Rightarrow> bool" where
  "is_space c =
     (c = 0x09 \<or> c = 0x0A \<or> c = 0x0B \<or> c = 0x0C \<or> c = 0x0D \<or> c = 0x20 \<or> c = 0xA0
      \<or> c = 0x1680 \<or> (0x2000 \<le> c \<and> c \<le> 0x200A) \<or> c = 0x2028 \<or> c = 0x2029
      \<or> c = 0x202F \<or> c = 0x205F \<or> c = 0x3000 \<or> c = 0xFEFF)"

definition trimStart :: "jsstring \<Rightarrow> jsstring" where
  "trimStart s = dropWhile is_space s"

definition trimEnd :: "jsstring \<Rightarrow> jsstring" where
  "trimEnd s = rev (dropWhile is_space (rev s))"

definition trim :: "jsstring \<Rightarrow> jsstring" where
  "trim s = trimEnd (trimStart s)"

text \<open>A non-negative integer in a template literal: its decimal digits.\<close>

function num_str :: "nat \<Rightarrow> jsstring" where
  "num_str n =
     (if n < 10 then [0x30 + of_nat n]
      else num_str (n div 10) @ [0x30 + of_nat (n mod 10)])"
  by pat_completeness auto
termination
  by (relation "measure id") auto

declare num_str.simps [simp del]

section \<open>Constants\<close>

definition DEFAULT_TEMPLATE :: jsstring where
  "DEFAULT_TEMPLATE = js ''https://bitbucket.org/mtinnovation/flutter_clean_template_2025''"

definition TOTAL_STEPS :: nat where
  "TOTAL_STEPS = 11"

text \<open>The pattern \<open>/^[a-z][a-z0-9_]*$/\<close> as a test on the whole string (no flag is
  given, so \<open>$\<close> is the end of the input).\<close>

fun DART_PACKAGE_NAME_RE :: "jsstring \<Rightarrow> bool" where
  "DART_PACKAGE_NAME_RE [] = False"
| "DART_PACKAGE_NAME_RE (c # cs) =
     (is_az c \<and> list_all (\<lambda>d. is_az d \<or> is_09 d \<or> d = 0x5F) cs)"

section \<open>Flutter runner abstraction\<close>

text \<open>The module variable \<open>useFvm\<close> is passed to the two helpers that read it.\<close>

definition fvmCmd :: "bool \<Rightarrow> jsstring \<Rightarrow> jsstring" where
  "fvmCmd useFvm cmd = (if useFvm then js ''fvm'' else cmd)"

definition fvmArgs :: "bool \<Rightarrow> jsstring \<Rightarrow> jsstring list \<Rightarrow> jsstring list" where
  "fvmArgs useFvm cmd args = (if useFvm then cmd # args else args)"

section \<open>Pure helpers of the pipeline\<close>

definition stepMsg :: "nat \<Rightarrow> jsstring \<Rightarrow> jsstring" where
  "stepMsg n msg = js ''['' @ num_str n @ js ''/'' @ num_str TOTAL_STEPS @ js ''] '' @ msg"

definition toDisplayName :: "jsstring \<Rightarrow> jsstring" where
  "toDisplayName pkg =
     join (js '' '')
       (map (\<lambda>w. toUpperCase (take 1 w) @ drop 1 w) (split_on 0x5F pkg))"

definition toAppId :: "jsstring \<Rightarrow> jsstring" where
  "toAppId pkg = replace_all_unit 0x5F [] pkg"

subsection \<open>\<open>JSON.stringify\<close> of a flat object of strings, indented by two\<close>

definition hex_digit :: "nat \<Rightarrow> unit16" where
  "hex_digit n = (if n < 10 then 0x30 + of_nat n else 0x57 + of_nat n)"

definition unicode_escape :: "unit16 \<Rightarrow> jsstring" where
  "unicode_escape c =
     (let n = unat c
      in [0x5C, 0x75, hex_digit (n div 4096 mod 16), hex_digit (n div 256 mod 16),
          hex_digit (n div 16 mod 16), hex_digit (n mod 16)])"

definition is_lead_surrogate :: "unit16 \<Rightarrow> bool" where
  "is_lead_surrogate c = (0xD800 \<le> c \<and> c \<le> 0xDBFF)"

definition is_trail_surrogate :: "unit16 \<Rightarrow> bool" where
  "is_trail_surrogate c = (0xDC00 \<le> c \<and> c \<le> 0xDFFF)"

fun quote_units :: "jsstring \<Rightarrow> jsstring" where
  "quote_units [] = []"
| "quote_units (c # cs) =
     (if c = 0x08 then [0x5C, 0x62] @ quote_units cs
      else if c = 0x09 then [0x5C, 0x74] @ quote_units cs
      else if c = 0x0A then [0x5C, 0x6E] @ quote_units cs
      else if c = 0x0C then [0x5C, 0x66] @ quote_units cs
      else if c = 0x0D then [0x5C, 0x72] @ quote_units cs
      else if c = 0x22 then [0x5C, 0x22] @ quote_units cs
      else if c = 0x5C then [0x5C, 0x5C] @ quote_units cs
      else if c < 0x20 then unicode_escape c @ quote_units cs
      else if is_lead_surrogate c then
        (case cs of
           [] \<Rightarrow> unicode_escape c
         | d # ds \<Rightarrow>
             if is_trail_surrogate d then c # d # quote_units ds
             else unicode_escape c @ quote_units cs)
      else if is_trail_surrogate c then unicode_escape c @ quote_units cs
      else c # quote_units cs)"

definition QuoteJSONString :: "jsstring \<Rightarrow> jsstring" where
  "QuoteJSONString s = [0x22] @ quote_units s @ [0x22]"

definition JSON_stringify2 :: "(jsstring \<times> jsstring) list \<Rightarrow> jsstring" where
  "JSON_stringify2 props =
     (if props = [] then js ''{}''
      else js ''{\<newline>  ''
           @ join (js '',\<newline>  '')
               (map (\<lambda>(k, v). QuoteJSONString k @ js '': '' @ QuoteJSONString v) props)
           @ js ''\<newline>}'')"

subsection \<open>Config file contents\<close>

text \<open>The object literal of \<open>configJson\<close>, as its properties in insertion order.\<close>

definition config_object :: "jsstring \<Rightarrow> (jsstring \<times> jsstring) list" where
  "config_object env =
     [(js ''secretKey'', toUpperCase env),
      (js ''baseUrl'', []),
      (js ''xAPIKey'', []),
      (js ''oneSignalKey'', [])]"

definition configJson :: "jsstring \<Rightarrow> jsstring" where
  "configJson env = JSON_stringify2 (config_object env)"

section \<open>The world outside the program\<close>

text \<open>
  A path is absolute and normalised, given by its segments; \<open>path.join\<close> of a path and
  segments without separators appends them. The handler's \<open>dir\<close> argument is taken as
  the path that \<open>path.resolve\<close> makes of it. Paths are printed the POSIX way.
\<close>

type_synonym path = "jsstring list"

definition path_str :: "path \<Rightarrow> jsstring" where
  "path_str p = (if p = [] then js ''/'' else concat (map (\<lambda>s. js ''/'' @ s) p))"

text \<open>
  The file system maps a path to a regular file with its text or to a directory. What
  else a child process can see or change (installed tools, package caches, the network)
  is the component \<open>ext\<close>, of any type.
\<close>

datatype node = File jsstring | Dir

record 'x world =
  fs :: "path \<Rightarrow> node option"
  ext :: 'x

text \<open>
  How \<open>execFile\<close> settles: the child exited with status 0, with its standard output
  and error text; or the promise is rejected with an error whose \<open>stderr\<close>, \<open>stdout\<close>
  and \<open>message\<close> are given (an absent \<open>stderr\<close> or \<open>stdout\<close> is the empty string: both
  are falsy).
\<close>

datatype exec_result =
    Exited jsstring jsstring
  | Rejected jsstring jsstring jsstring

type_synonym env = "(jsstring \<times> jsstring) list"

text \<open>
  The behaviour of child processes is a parameter of the model: for a command, its
  arguments, its working directory and the variables added to the environment, what the
  call returns and what world it leaves.
\<close>

type_synonym 'x os =
  "jsstring \<Rightarrow> jsstring list \<Rightarrow> path option \<Rightarrow> env \<Rightarrow> 'x world \<Rightarrow> exec_result \<times> 'x world"

text \<open>Every call that reaches outside the program is recorded, in order.\<close>

datatype event =
    Spawn jsstring "jsstring list" "path option" env
  | ExistsSync path
  | ReadFileSync path
  | WriteFileSync path jsstring
  | MkdirSync path

text \<open>
  The state of a run: the world, the module variable \<open>useFvm\<close>, the handler's local
  \<open>log\<close> array and the record of outside calls.
\<close>

record 'x state =
  world :: "'x world"
  useFvm :: bool
  log :: "jsstring list"
  trace :: "event list"

text \<open>A computation returns a value or throws an \<open>Error\<close>, given by its message.\<close>

type_synonym ('x, 'a) io = "'x state \<Rightarrow> (jsstring + 'a) \<times> 'x state"

definition ok :: "'a \<Rightarrow> ('x, 'a) io" where
  "ok a st = (Inr a, st)"

definition throw :: "jsstring \<Rightarrow> ('x, 'a) io" where
  "throw e st = (Inl e, st)"

definition andThen :: "('x, 'a) io \<Rightarrow> ('a \<Rightarrow> ('x, 'b) io) \<Rightarrow> ('x, 'b) io" where
  "andThen m f st = (case m st of (Inl e, st') \<Rightarrow> (Inl e, st') | (Inr a, st') \<Rightarrow> f a st')"

definition discard :: "('x, 'a) io \<Rightarrow> ('x, unit) io" where
  "discard m = andThen m (\<lambda>_. ok ())"

definition push :: "jsstring \<Rightarrow> ('x, unit) io" where
  "push msg st = (Inr (), st\<lparr>log := log st @ [msg]\<rparr>)"

text \<open>Reading and assigning the module variable.\<close>

definition read_useFvm :: "('x, bool) io" where
  "read_useFvm st = (Inr (useFvm st), st)"

definition write_useFvm :: "bool \<Rightarrow> ('x, unit) io" where
  "write_useFvm b st = (Inr (), st\<lparr>useFvm := b\<rparr>)"

section \<open>Child processes\<close>

definition execFileAsync ::
  "'x os \<Rightarrow> jsstring \<Rightarrow> jsstring list \<Rightarrow> path option \<Rightarrow> env \<Rightarrow> 'x state
     \<Rightarrow> exec_result \<times> 'x state" where
  "execFileAsync os command args cwd extraEnv st =
     (case os command args cwd extraEnv (world st) of
        (r, w) \<Rightarrow> (r, st\<lparr>world := w, trace := trace st @ [Spawn command args cwd extraEnv]\<rparr>))"

text \<open>The two probes catch every rejection: they return a truth value and never throw.\<close>

definition detectFvm :: "'x os \<Rightarrow> ('x, bool) io" where
  "detectFvm os st =
     (case execFileAsync os (js ''which'') [js ''fvm''] None [] st of
        (Exited out err, st') \<Rightarrow> (Inr True, st')
      | (Rejected err out msg, st') \<Rightarrow> (Inr False, st'))"

definition commandExists :: "'x os \<Rightarrow> jsstring \<Rightarrow> ('x, bool) io" where
  "commandExists os cmd st =
     (case execFileAsync os (js ''which'') [cmd] None [] st of
        (Exited out err, st') \<Rightarrow> (Inr True, st')
      | (Rejected err out msg, st') \<Rightarrow> (Inr False, st'))"

text \<open>\<open>run\<close>: the combined output, trimmed, or an error that carries the command line
  and the first non-empty of the child's error text, its output and the message.\<close>

definition run ::
  "'x os \<Rightarrow> jsstring \<Rightarrow> jsstring list \<Rightarrow> path option \<Rightarrow> env \<Rightarrow> ('x, jsstring) io" where
  "run os command args cwd extraEnv st =
     (case execFileAsync os command args cwd extraEnv st of
        (Exited out err, st') \<Rightarrow>
          (Inr (trim (join (js ''\<newline>'') (filter (\<lambda>s. s \<noteq> []) [out, err]))), st')
      | (Rejected err out message, st') \<Rightarrow>
          (Inl (js ''Command failed: '' @ command @ js '' '' @ join (js '' '') args
                @ js ''\<newline>''
                @ (if err \<noteq> [] then err else if out \<noteq> [] then out else message)),
           st'))"

subsection \<open>The interactive executor\<close>

definition quote_arg :: "jsstring \<Rightarrow> jsstring" where
  "quote_arg a = (if 0x20 \<in> set a then [0x22] @ a @ [0x22] else a)"

definition fullCmd :: "jsstring \<Rightarrow> jsstring list \<Rightarrow> jsstring" where
  "fullCmd command args = join (js '' '') (map quote_arg (command # args))"

definition expectScript :: "jsstring \<Rightarrow> jsstring" where
  "expectScript full =
     join (js ''\<newline>'')
       [js ''set timeout 300'',
        js ''spawn '' @ full,
        js ''expect {'',
        js ''  -re {'' @ [0x5C] @ js ''(Y/n'' @ [0x5C] @ js '')|'' @ [0x5C] @ js ''(y/N''
          @ [0x5C] @ js '')|'' @ [0x5C] @ js ''[Y/n'' @ [0x5C] @ js '']|'' @ [0x5C]
          @ js ''[y/N'' @ [0x5C] @ js '']|proceed} { send \"y'' @ [0x5C]
          @ js ''r\"; exp_continue }'',
        js ''  timeout { exit 1 }'',
        js ''  eof'',
        js ''}'',
        js ''lassign [wait] pid spawnid os_error_flag value'',
        js ''exit $value'']"

definition runInteractive ::
  "'x os \<Rightarrow> jsstring \<Rightarrow> jsstring list \<Rightarrow> path option \<Rightarrow> ('x, jsstring) io" where
  "runInteractive os command args cwd =
     andThen (commandExists os (js ''expect'')) (\<lambda>hasExpect.
     if hasExpect then
       run os (js ''expect'') [js ''-c'', expectScript (fullCmd command args)] cwd []
     else
       run os command args cwd [(js ''CI'', js ''true''), (js ''TERM'', js ''dumb'')])"

section \<open>File system calls\<close>

text \<open>\<open>existsSync\<close> never throws.\<close>

definition existsSync :: "path \<Rightarrow> ('x, bool) io" where
  "existsSync p st =
     (Inr (fs (world st) p \<noteq> None), st\<lparr>trace := trace st @ [ExistsSync p]\<rparr>)"

text \<open>\<open>readFileSync(p, "utf-8")\<close> throws on a missing path and on a directory. A file
  holds its text as decoded.\<close>

definition readFileSync :: "path \<Rightarrow> ('x, jsstring) io" where
  "readFileSync p st =
     (let st' = st\<lparr>trace := trace st @ [ReadFileSync p]\<rparr>
      in case fs (world st) p of
           Some (File text) \<Rightarrow> (Inr text, st')
         | Some Dir \<Rightarrow> (Inl (js ''EISDIR: illegal operation on a directory, read''), st')
         | None \<Rightarrow>
             (Inl (js ''ENOENT: no such file or directory, open '' @ [0x27] @ path_str p @ [0x27]),
              st'))"

text \<open>\<open>writeFileSync(p, text)\<close> replaces a regular file or creates one in an existing
  directory; it throws on a directory and when the parent is missing or is a file.\<close>

definition writeFileSync :: "path \<Rightarrow> jsstring \<Rightarrow> ('x, unit) io" where
  "writeFileSync p text st =
     (let w = world st;
          st' = st\<lparr>trace := trace st @ [WriteFileSync p text]\<rparr>;
          written = st'\<lparr>world := w\<lparr>fs := (fs w)(p \<mapsto> File text)\<rparr>\<rparr>
      in case fs w p of
           Some Dir \<Rightarrow>
             (Inl (js ''EISDIR: illegal operation on a directory, open '' @ [0x27] @ path_str p @ [0x27]),
              st')
         | Some (File old) \<Rightarrow> (Inr (), written)
         | None \<Rightarrow>
             (case fs w (butlast p) of
                Some Dir \<Rightarrow> (Inr (), written)
              | Some (File other) \<Rightarrow>
                  (Inl (js ''ENOTDIR: not a directory, open '' @ [0x27] @ path_str p @ [0x27]), st')
              | None \<Rightarrow>
                  (Inl (js ''ENOENT: no such file or directory, open '' @ [0x27] @ path_str p
                        @ [0x27]),
                   st')))"

definition is_file :: "node option \<Rightarrow> bool" where
  "is_file n = (case n of Some (File text) \<Rightarrow> True | Some Dir \<Rightarrow> False | None \<Rightarrow> False)"

text \<open>\<open>mkdirSync(p, {recursive: true})\<close> makes the directory and every missing
  ancestor, does nothing on an existing directory, and throws when the path or one of
  its ancestors is a regular file.\<close>

definition mkdirSync :: "path \<Rightarrow> ('x, unit) io" where
  "mkdirSync p st =
     (let w = world st;
          st' = st\<lparr>trace := trace st @ [MkdirSync p]\<rparr>
      in if is_file (fs w p) then
           (Inl (js ''EEXIST: file already exists, mkdir '' @ [0x27] @ path_str p @ [0x27]), st')
         else if list_ex (\<lambda>q. is_file (fs w q)) (prefixes p) then
           (Inl (js ''ENOTDIR: not a directory, mkdir '' @ [0x27] @ path_str p @ [0x27]), st')
         else
           (Inr (),
            st'\<lparr>world := w\<lparr>fs := (\<lambda>q. if prefix q p then Some Dir else fs w q)\<rparr>\<rparr>))"

section \<open>The tool \<open>create_flutter_project\<close>\<close>

text \<open>
  The arguments as the schema delivers them. The schema requires the name to match
  \<open>DART_PACKAGE_NAME_RE\<close> and the organisation to be non-empty (it also requires the
  template, when given, to be a URL, which is not modelled: the template is any string).
\<close>

record request =
  name :: jsstring
  org :: jsstring
  template :: "jsstring option"
  dir :: "path option"
  dry_run :: "bool option"

definition valid_request :: "request \<Rightarrow> bool" where
  "valid_request r = (DART_PACKAGE_NAME_RE (name r) \<and> org r \<noteq> [])"

definition templateUrl :: "request \<Rightarrow> jsstring" where
  "templateUrl r = (case template r of None \<Rightarrow> DEFAULT_TEMPLATE | Some t \<Rightarrow> t)"

text \<open>\<open>cwd\<close> is the working directory of the server process.\<close>

definition parentDir :: "path \<Rightarrow> request \<Rightarrow> path" where
  "parentDir cwd r = (case dir r of None \<Rightarrow> cwd | Some d \<Rightarrow> d)"

definition projectDir :: "path \<Rightarrow> request \<Rightarrow> path" where
  "projectDir cwd r = parentDir cwd r @ [name r]"

definition dryRun :: "request \<Rightarrow> bool" where
  "dryRun r = (case dry_run r of None \<Rightarrow> False | Some b \<Rightarrow> b)"

subsection \<open>Detect tooling, header, pre-flight checks\<close>

definition runner :: "bool \<Rightarrow> jsstring" where
  "runner fvm = (if fvm then js ''fvm'' else js ''flutter/dart (fvm not found)'')"

definition header :: "path \<Rightarrow> request \<Rightarrow> ('x, unit) io" where
  "header cwd r =
     andThen read_useFvm (\<lambda>fvm.
     andThen (push (js ''Project:  '' @ name r)) (\<lambda>_.
     andThen (push (js ''Org:      '' @ org r)) (\<lambda>_.
     andThen (push (js ''Template: '' @ templateUrl r)) (\<lambda>_.
     andThen (push (js ''Location: '' @ path_str (projectDir cwd r))) (\<lambda>_.
     andThen (push (js ''Runner:   '' @ runner fvm)) (\<lambda>_.
     if dryRun r then push (js ''Mode:     DRY RUN\<newline>'') else ok ()))))))"

definition toolchain_missing :: jsstring where
  "toolchain_missing = js ''Neither fvm nor flutter found on PATH. Install Flutter or fvm first.''"

definition git_missing :: jsstring where
  "git_missing = js ''git is not installed.''"

definition directory_exists :: "path \<Rightarrow> jsstring" where
  "directory_exists p =
     js ''Directory '' @ [0x27] @ path_str p @ [0x27]
                        @ js '' already exists. Remove it or choose a different name.''"

definition check_toolchain :: "'x os \<Rightarrow> ('x, unit) io" where
  "check_toolchain os =
     andThen read_useFvm (\<lambda>fvm.
     if fvm then ok ()
     else
       andThen (commandExists os (js ''flutter'')) (\<lambda>hasFlutter.
       if hasFlutter then ok () else throw toolchain_missing))"

definition check_directory :: "path \<Rightarrow> ('x, unit) io" where
  "check_directory p =
     andThen (existsSync p) (\<lambda>found.
     if found then throw (directory_exists p) else ok ())"

definition preflight :: "'x os \<Rightarrow> path \<Rightarrow> request \<Rightarrow> bool \<Rightarrow> ('x, unit) io" where
  "preflight os cwd r hasGit =
     (if \<not> dryRun r then
        andThen (check_toolchain os) (\<lambda>_.
        andThen (if \<not> hasGit then throw git_missing else ok ()) (\<lambda>_.
        check_directory (projectDir cwd r)))
      else
        push (js ''[pre-flight] Would verify: flutter/fvm, git installed; ''
              @ path_str (projectDir cwd r) @ js '' does not exist''))"

subsection \<open>Steps 1 to 5\<close>

definition step1 :: "'x os \<Rightarrow> request \<Rightarrow> ('x, unit) io" where
  "step1 os r =
     andThen read_useFvm (\<lambda>fvm.
     andThen (push (stepMsg 1 (js ''Installing app_starter_plus''))) (\<lambda>_.
     andThen
       (if dryRun r then
          push (js ''  [dry-run] '' @ fvmCmd fvm (js ''dart'') @ js '' ''
                @ join (js '' '')
                    (fvmArgs fvm (js ''dart'')
                       [js ''pub'', js ''global'', js ''activate'', js ''app_starter_plus'']))
        else
          discard
            (run os (fvmCmd fvm (js ''dart''))
               (fvmArgs fvm (js ''dart'')
                  [js ''pub'', js ''global'', js ''activate'', js ''app_starter_plus''])
               None [])) (\<lambda>_.
     push ([0x2714] @ js '' app_starter_plus ready''))))"

definition starterArgs :: "bool \<Rightarrow> request \<Rightarrow> jsstring list" where
  "starterArgs fvm r =
     fvmArgs fvm (js ''dart'')
       ([js ''pub'', js ''global'', js ''run'', js ''app_starter_plus:app_starter_plus'',
         js ''--name'', name r, js ''--org'', org r, js ''--template'', templateUrl r]
        @ (if fvm then [js ''--fvm''] else []))"

definition step2 :: "'x os \<Rightarrow> path \<Rightarrow> request \<Rightarrow> ('x, unit) io" where
  "step2 os cwd r =
     andThen read_useFvm (\<lambda>fvm.
     andThen (push (stepMsg 2 (js ''Cloning template into '' @ name r))) (\<lambda>_.
     andThen
       (if dryRun r then
          push (js ''  [dry-run] '' @ fvmCmd fvm (js ''dart'') @ js '' ''
                @ join (js '' '') (starterArgs fvm r))
        else
          discard
            (run os (fvmCmd fvm (js ''dart'')) (starterArgs fvm r)
               (Some (parentDir cwd r)) [])) (\<lambda>_.
     push ([0x2714] @ js '' Template cloned''))))"

definition git_init :: "'x os \<Rightarrow> path \<Rightarrow> ('x, unit) io" where
  "git_init os p =
     andThen (existsSync (p @ [js ''.git''])) (\<lambda>found.
     if \<not> found then
       andThen (run os (js ''git'') [js ''init''] (Some p) []) (\<lambda>_.
       push ([0x2714] @ js '' Git repository initialised''))
     else push ([0x2714] @ js '' Git repository already exists''))"

definition git_hooks :: "'x os \<Rightarrow> path \<Rightarrow> ('x, unit) io" where
  "git_hooks os p =
     andThen (existsSync (p @ [js ''.githooks''])) (\<lambda>found.
     if found then
       andThen
         (run os (js ''git'') [js ''config'', js ''core.hooksPath'', js ''.githooks/'']
            (Some p) []) (\<lambda>_.
       push ([0x2714] @ js '' Git hooks configured (.githooks/)''))
     else push ([0x26A0] @ js '' No .githooks/ directory found '' @ [0x2014]
                  @ js '' skipping hook setup''))"

definition step3 :: "'x os \<Rightarrow> path \<Rightarrow> request \<Rightarrow> ('x, unit) io" where
  "step3 os cwd r =
     andThen (push (stepMsg 3 (js ''Initialising Git repository''))) (\<lambda>_.
     if dryRun r then
       andThen (push (js ''  [dry-run] git init (if .git/ does not exist)'')) (\<lambda>_.
       push (js ''  [dry-run] git config core.hooksPath .githooks/ (if .githooks/ exists)''))
     else
       andThen (git_init os (projectDir cwd r)) (\<lambda>_.
       git_hooks os (projectDir cwd r)))"

definition step4 :: "'x os \<Rightarrow> path \<Rightarrow> request \<Rightarrow> ('x, unit) io" where
  "step4 os cwd r =
     andThen read_useFvm (\<lambda>fvm.
     andThen (push (stepMsg 4 (js ''Installing Flutter dependencies''))) (\<lambda>_.
     andThen
       (if dryRun r then
          push (js ''  [dry-run] '' @ fvmCmd fvm (js ''flutter'') @ js '' ''
                @ join (js '' '')
                    (fvmArgs fvm (js ''flutter'') [js ''pub'', js ''get'']))
        else
          discard
            (run os (fvmCmd fvm (js ''flutter''))
               (fvmArgs fvm (js ''flutter'') [js ''pub'', js ''get''])
               (Some (projectDir cwd r)) [])) (\<lambda>_.
     push ([0x2714] @ js '' Dependencies installed''))))"

definition step5 :: "'x os \<Rightarrow> path \<Rightarrow> request \<Rightarrow> ('x, unit) io" where
  "step5 os cwd r =
     andThen read_useFvm (\<lambda>fvm.
     andThen (push (stepMsg 5 (js ''Generating localisations''))) (\<lambda>_.
     andThen
       (if dryRun r then
          push (js ''  [dry-run] '' @ fvmCmd fvm (js ''flutter'') @ js '' ''
                @ join (js '' '') (fvmArgs fvm (js ''flutter'') [js ''gen-l10n'']))
        else
          discard
            (run os (fvmCmd fvm (js ''flutter''))
               (fvmArgs fvm (js ''flutter'') [js ''gen-l10n''])
               (Some (projectDir cwd r)) [])) (\<lambda>_.
     push ([0x2714] @ js '' Localisations generated''))))"

subsection \<open>Steps 6 to 9\<close>

definition flavorizrContent :: "jsstring \<Rightarrow> jsstring \<Rightarrow> jsstring \<Rightarrow> jsstring" where
  "flavorizrContent displayName appId organisation =
     js ''flavors:\<newline>  dev:\<newline>    app:\<newline>      name: \"[DEV] ''
     @ displayName @ js ''\"\<newline>    android:\<newline>      applicationId: \"''
     @ organisation @ js ''.'' @ appId
     @ js ''.dev\"\<newline>    ios:\<newline>      bundleId: \"'' @ organisation @ js ''.''
     @ appId @ js ''.dev\"\<newline>  prod:\<newline>    app:\<newline>      name: \"''
     @ displayName @ js ''\"\<newline>    android:\<newline>      applicationId: \"''
     @ organisation @ js ''.'' @ appId
     @ js ''\"\<newline>    ios:\<newline>      bundleId: \"'' @ organisation @ js ''.''
     @ appId @ js ''\"\<newline>  uat:\<newline>    app:\<newline>      name: \"[UAT] ''
     @ displayName @ js ''\"\<newline>    android:\<newline>      applicationId: \"''
     @ organisation @ js ''.'' @ appId
     @ js ''.uat\"\<newline>    ios:\<newline>      bundleId: \"'' @ organisation @ js ''.''
     @ appId @ js ''.uat\"\<newline>''"

definition flavorizr_missing :: "path \<Rightarrow> jsstring" where
  "flavorizr_missing p = js ''flavorizr.yaml not found at '' @ path_str p"

definition update_flavorizr :: "path \<Rightarrow> request \<Rightarrow> ('x, unit) io" where
  "update_flavorizr flavorizrPath r =
     andThen (existsSync flavorizrPath) (\<lambda>found.
     if \<not> found then throw (flavorizr_missing flavorizrPath)
     else
       writeFileSync flavorizrPath
         (flavorizrContent (toDisplayName (name r)) (toAppId (name r)) (org r)))"

definition step6 :: "path \<Rightarrow> request \<Rightarrow> ('x, unit) io" where
  "step6 cwd r =
     andThen (push (stepMsg 6 (js ''Updating flavorizr.yaml''))) (\<lambda>_.
     andThen
       (if dryRun r then push (js ''  [dry-run] Update flavorizr.yaml with project name & org'')
        else update_flavorizr (projectDir cwd r @ [js ''flavorizr.yaml'']) r) (\<lambda>_.
     push ([0x2714] @ js '' flavorizr.yaml updated'')))"

definition step7 :: "'x os \<Rightarrow> path \<Rightarrow> request \<Rightarrow> ('x, unit) io" where
  "step7 os cwd r =
     andThen (push (stepMsg 7 (js ''Committing all files before flavorizr''))) (\<lambda>_.
     andThen
       (if dryRun r then push (js ''  [dry-run] git add -A && git commit'')
        else
          andThen (run os (js ''git'') [js ''add'', js ''-A''] (Some (projectDir cwd r)) [])
            (\<lambda>_.
          discard
            (run os (js ''git'')
               [js ''commit'', js ''-m'', js ''Initial project setup before flavorizr'']
               (Some (projectDir cwd r)) []))) (\<lambda>_.
     push ([0x2714] @ js '' All files committed'')))"

definition step8 :: "'x os \<Rightarrow> path \<Rightarrow> request \<Rightarrow> ('x, unit) io" where
  "step8 os cwd r =
     andThen read_useFvm (\<lambda>fvm.
     andThen (push (stepMsg 8 (js ''Generating flavors (flavorizr)''))) (\<lambda>_.
     andThen
       (if dryRun r then
          andThen
            (push (js ''  [dry-run] '' @ fvmCmd fvm (js ''flutter'') @ js '' ''
                   @ join (js '' '')
                       (fvmArgs fvm (js ''flutter'')
                          [js ''pub'', js ''run'', js ''flutter_flavorizr''])))
            (\<lambda>_.
          push (js ''  [dry-run] (will use expect for PTY allocation)''))
        else
          discard
            (runInteractive os (fvmCmd fvm (js ''flutter''))
               (fvmArgs fvm (js ''flutter'')
                  [js ''pub'', js ''run'', js ''flutter_flavorizr''])
               (Some (projectDir cwd r)))) (\<lambda>_.
     push ([0x2714] @ js '' Flavors generated''))))"

definition step9 :: "'x os \<Rightarrow> path \<Rightarrow> request \<Rightarrow> ('x, unit) io" where
  "step9 os cwd r =
     andThen
       (push (stepMsg 9 (js ''Reverting main.dart & app.dart (overwritten by flavorizr)'')))
       (\<lambda>_.
     andThen
       (if dryRun r then push (js ''  [dry-run] git checkout -- lib/main.dart lib/app.dart'')
        else
          discard
            (run os (js ''git'')
               [js ''checkout'', js ''--'', js ''lib/main.dart'', js ''lib/app.dart'']
               (Some (projectDir cwd r)) [])) (\<lambda>_.
     push ([0x2714] @ js '' main.dart & app.dart reverted'')))"

subsection \<open>Step 10\<close>

fun write_configs :: "path \<Rightarrow> jsstring list \<Rightarrow> ('x, unit) io" where
  "write_configs configDir [] = ok ()"
| "write_configs configDir (env # envs) =
     andThen
       (writeFileSync (configDir @ [js ''app_config_'' @ env @ js ''.json''])
          (configJson env @ js ''\<newline>''))
       (\<lambda>_. write_configs configDir envs)"

definition step10 :: "path \<Rightarrow> request \<Rightarrow> ('x, unit) io" where
  "step10 cwd r =
     andThen (push (stepMsg 10 (js ''Creating config files''))) (\<lambda>_.
     andThen
       (if dryRun r then
          andThen (push (js ''  [dry-run] mkdir -p config'')) (\<lambda>_.
          push (js ''  [dry-run] Write config/app_config_{dev,prod,uat}.json''))
        else
          andThen (mkdirSync (projectDir cwd r @ [js ''config''])) (\<lambda>_.
          write_configs (projectDir cwd r @ [js ''config''])
            [js ''dev'', js ''prod'', js ''uat''])) (\<lambda>_.
     push ([0x2714] @ js '' Config files created (config/app_config_{dev,prod,uat}.json)'')))"

subsection \<open>Step 11: the edits of the build script\<close>

text \<open>
  A pattern is given by what it does at the start of a text: the text that follows the
  match there, if there is one. \<open>replace_first\<close> is \<open>String.prototype.replace\<close> with a
  pattern without the global flag and a replacement string without \<open>$\<close>: the leftmost
  match is replaced, and a text without a match is returned as it is.
\<close>

fun strip_prefix :: "jsstring \<Rightarrow> jsstring \<Rightarrow> jsstring option" where
  "strip_prefix [] s = Some s"
| "strip_prefix (p # ps) [] = None"
| "strip_prefix (p # ps) (c # cs) = (if p = c then strip_prefix ps cs else None)"

fun replace_first :: "(jsstring \<Rightarrow> jsstring option) \<Rightarrow> jsstring \<Rightarrow> jsstring \<Rightarrow> jsstring" where
  "replace_first re repl [] = (case re [] of Some rest \<Rightarrow> repl @ rest | None \<Rightarrow> [])"
| "replace_first re repl (c # cs) =
     (case re (c # cs) of
        Some rest \<Rightarrow> repl @ rest
      | None \<Rightarrow> c # replace_first re repl cs)"

text \<open>A keyword, then \<open>\s*\<close>, then an opening brace.\<close>

definition block_open :: "jsstring \<Rightarrow> jsstring \<Rightarrow> jsstring option" where
  "block_open keyword s =
     (case strip_prefix keyword s of
        None \<Rightarrow> None
      | Some r \<Rightarrow>
          (case dropWhile is_space r of
             [] \<Rightarrow> None
           | c # rest \<Rightarrow> if c = 0x7B then Some rest else None))"

text \<open>The text after the first occurrence of a string: what follows a lazy
  \<open>[\s\S]*?\<close> and the string.\<close>

fun after_first :: "jsstring \<Rightarrow> jsstring \<Rightarrow> jsstring option" where
  "after_first needle [] = strip_prefix needle []"
| "after_first needle (c # cs) =
     (case strip_prefix needle (c # cs) of
        Some rest \<Rightarrow> Some rest
      | None \<Rightarrow> after_first needle cs)"

text \<open>\<open>/compileOptions\s*\{/\<close>\<close>

definition compileOptions_RE :: "jsstring \<Rightarrow> jsstring option" where
  "compileOptions_RE s = block_open (js ''compileOptions'') s"

text \<open>\<open>/buildTypes\s*\{[\s\S]*?\n    \}/\<close>\<close>

definition buildTypes_RE :: "jsstring \<Rightarrow> jsstring option" where
  "buildTypes_RE s =
     (case block_open (js ''buildTypes'') s of
        None \<Rightarrow> None
      | Some r \<Rightarrow> after_first (js ''\<newline>    }'') r)"

definition compileOptions_block :: jsstring where
  "compileOptions_block = js ''compileOptions {\<newline>''
                        @ js ''        isCoreLibraryDesugaringEnabled = true''"

definition buildTypes_block :: jsstring where
  "buildTypes_block =
     js ''buildTypes {\<newline>        getByName(\"debug\") {\<newline>''
     @ js ''            signingConfig = signingConfigs.getByName(\"debug\")''
     @ js ''\<newline>            isMinifyEnabled = true\<newline>''
     @ js ''            isShrinkResources = true\<newline>''
     @ js ''            proguardFiles(\<newline>''
     @ js ''                getDefaultProguardFile(\"proguard-android.txt\"),''
     @ js ''\<newline>                \"proguard-rules.pro\"\<newline>            )\<newline>''
     @ js ''        }\<newline>    }''"

definition dependencies_block :: jsstring where
  "dependencies_block =
     js ''\<newline>\<newline>dependencies {\<newline>''
     @ js ''    implementation(\"com.huawei.hms:push:6.11.0.300\")\<newline>''
     @ js ''    implementation(\"androidx.multidex:multidex:2.0.1\")\<newline>''
     @ js ''    coreLibraryDesugaring(\"com.android.tools:desugar_jdk_libs:2.1.4\")''
     @ js ''\<newline>}\<newline>''"

definition patch_gradle :: "jsstring \<Rightarrow> jsstring" where
  "patch_gradle gradle0 =
     (let gradle1 = replace_first compileOptions_RE compileOptions_block gradle0;
          gradle2 = replace_first buildTypes_RE buildTypes_block gradle1
      in trimEnd gradle2 @ dependencies_block)"

definition proguardContent :: jsstring where
  "proguardContent =
     js ''-ignorewarnings\<newline>-keepattributes *Annotation*\<newline>''
     @ js ''-keepattributes Exceptions\<newline>-keepattributes InnerClasses\<newline>''
     @ js ''-keepattributes Signature\<newline>''
     @ js ''-keep class com.hianalytics.android.**{*;}\<newline>''
     @ js ''-keep class com.huawei.updatesdk.**{*;}\<newline>''
     @ js ''-keep class com.huawei.hms.**{*;}\<newline>\<newline>## Flutter wrapper\<newline>''
     @ js ''-keep class io.flutter.app.** { *; }\<newline>''
     @ js ''-keep class io.flutter.plugin.**  { *; }\<newline>''
     @ js ''-keep class io.flutter.util.**  { *; }\<newline>''
     @ js ''-keep class io.flutter.view.**  { *; }\<newline>''
     @ js ''-keep class io.flutter.**  { *; }\<newline>''
     @ js ''-keep class io.flutter.plugins.**  { *; }\<newline>''
     @ js ''-dontwarn io.flutter.embedding.**\<newline>''
     @ js ''-keep class com.huawei.hms.flutter.** { *; }\<newline>''
     @ js ''-keep class androidx.lifecycle.DefaultLifecycleObserver\<newline>''
     @ js ''-repackageclasses\<newline>''"

definition gradle_missing :: "path \<Rightarrow> jsstring" where
  "gradle_missing p = js ''android/app/build.gradle.kts not found at '' @ path_str p"

definition gradlePath :: "path \<Rightarrow> path" where
  "gradlePath project = project @ [js ''android'', js ''app'', js ''build.gradle.kts'']"

definition proguardPath :: "path \<Rightarrow> path" where
  "proguardPath project = project @ [js ''android'', js ''app'', js ''proguard-rules.pro'']"

definition configure_android :: "path \<Rightarrow> ('x, unit) io" where
  "configure_android project =
     andThen (existsSync (gradlePath project)) (\<lambda>found.
     if \<not> found then throw (gradle_missing (gradlePath project))
     else
       andThen (readFileSync (gradlePath project)) (\<lambda>gradle.
       andThen (writeFileSync (gradlePath project) (patch_gradle gradle)) (\<lambda>_.
       andThen
         (push ([0x2714]
                  @ js '' android/app/build.gradle.kts updated (desugaring, buildTypes, dependencies)''))
         (\<lambda>_.
       andThen (writeFileSync (proguardPath project) proguardContent) (\<lambda>_.
       push ([0x2714] @ js '' android/app/proguard-rules.pro created''))))))"

definition step11 :: "path \<Rightarrow> request \<Rightarrow> ('x, unit) io" where
  "step11 cwd r =
     andThen
       (push (stepMsg 11 (js ''Configuring Android build (desugaring, HMS, ProGuard)'')))
       (\<lambda>_.
     if dryRun r then
       andThen
         (push (js ''  [dry-run] Patch android/app/build.gradle.kts (compileOptions, buildTypes, dependencies)''))
         (\<lambda>_.
       push (js ''  [dry-run] Create android/app/proguard-rules.pro''))
     else configure_android (projectDir cwd r))"

subsection \<open>Completion and the handler\<close>

definition dry_run_complete :: jsstring where
  "dry_run_complete = js ''\<newline>'' @ [0x2500, 0x2500]
                        @ js '' Dry run complete! No changes were made. ''
                        @ [0x2500, 0x2500]"

definition completion :: "path \<Rightarrow> request \<Rightarrow> ('x, unit) io" where
  "completion cwd r =
     (if dryRun r then push dry_run_complete
      else
        andThen (push (js ''\<newline>'' @ [0x2500, 0x2500] @ js '' Setup complete! ''
                        @ [0x2500, 0x2500])) (\<lambda>_.
        andThen (push (js ''Project location: '' @ path_str (projectDir cwd r))) (\<lambda>_.
        andThen (push (js ''\<newline>Next steps:'')) (\<lambda>_.
        andThen (push (js ''  1. Fill in config/app_config_*.json with your API keys'')) (\<lambda>_.
        push (js ''  2. Open '' @ path_str (projectDir cwd r)
              @ js '' in your IDE and start building''))))))"

text \<open>The eleven steps in their order.\<close>

definition steps :: "'x os \<Rightarrow> path \<Rightarrow> request \<Rightarrow> ('x, unit) io" where
  "steps os cwd r =
     andThen (step1 os r) (\<lambda>_.
     andThen (step2 os cwd r) (\<lambda>_.
     andThen (step3 os cwd r) (\<lambda>_.
     andThen (step4 os cwd r) (\<lambda>_.
     andThen (step5 os cwd r) (\<lambda>_.
     andThen (step6 cwd r) (\<lambda>_.
     andThen (step7 os cwd r) (\<lambda>_.
     andThen (step8 os cwd r) (\<lambda>_.
     andThen (step9 os cwd r) (\<lambda>_.
     andThen (step10 cwd r) (\<lambda>_.
     step11 cwd r))))))))))"

text \<open>The body of the handler's \<open>try\<close>: the two probes, the header, the pre-flight
  checks, the steps and the closing lines.\<close>

definition provision :: "'x os \<Rightarrow> path \<Rightarrow> request \<Rightarrow> ('x, unit) io" where
  "provision os cwd r =
     andThen (detectFvm os) (\<lambda>fvm.
     andThen (write_useFvm fvm) (\<lambda>_.
     andThen (commandExists os (js ''git'')) (\<lambda>hasGit.
     andThen (header cwd r) (\<lambda>_.
     andThen (preflight os cwd r hasGit) (\<lambda>_.
     andThen (steps os cwd r) (\<lambda>_.
     completion cwd r))))))"

datatype tool_result = Content jsstring | IsError jsstring

definition failure_text :: "jsstring \<Rightarrow> jsstring list \<Rightarrow> jsstring" where
  "failure_text message lines =
     [0x274C] @ js '' Setup failed:\<newline>'' @ message @ js ''\<newline>\<newline>Progress so far:\<newline>''
     @ join (js ''\<newline>'') lines"

definition create_flutter_project ::
  "'x os \<Rightarrow> path \<Rightarrow> request \<Rightarrow> 'x state \<Rightarrow> tool_result \<times> 'x state" where
  "create_flutter_project os cwd r st =
     (case provision os cwd r (st\<lparr>log := []\<rparr>) of
        (Inr u, st') \<Rightarrow> (Content (join (js ''\<newline>'') (log st')), st')
      | (Inl message, st') \<Rightarrow> (IsError (failure_text message (log st')), st'))"

section \<open>Auxiliary functions of the proofs\<close>


text \<open>The number of the step that a log line announces: the \<open>k\<close> of a line that starts
  with \<open>[k/11]\<close> and a space.\<close>

definition step_no :: "jsstring \<Rightarrow> nat option" where
  "step_no line = find (\<lambda>k. prefix (stepMsg k []) line) [1, 2, 3, 4, 5, 6, 7, 8, 9, 10, 11]"

text \<open>What a probe \<open>which c\<close> finds in a world, and the world it leaves.\<close>

definition probe_ok :: "'x os \<Rightarrow> jsstring \<Rightarrow> 'x world \<Rightarrow> bool" where
  "probe_ok os c w =
     (case fst (os (js ''which'') [c] None [] w) of
        Exited out err \<Rightarrow> True
      | Rejected err out msg \<Rightarrow> False)"

definition probe_world :: "'x os \<Rightarrow> jsstring \<Rightarrow> 'x world \<Rightarrow> 'x world" where
  "probe_world os c w = snd (os (js ''which'') [c] None [] w)"

section \<open>Example environments\<close>

text \<open>A machine on which every command exits with status 0, prints nothing and changes
  nothing; a world with the directory \<open>/work\<close>; a request for \<open>logistics_app\<close>.\<close>

definition idle_os :: "unit os" where
  "idle_os command args cwd extraEnv w = (Exited [] [], w)"

definition work_world :: "unit world" where
  "work_world = \<lparr>fs = [[] \<mapsto> Dir, [js ''work''] \<mapsto> Dir], ext = ()\<rparr>"

definition work_state :: "unit state" where
  "work_state = \<lparr>world = work_world, useFvm = False, log = [], trace = []\<rparr>"

definition logistics :: request where
  "logistics =
     \<lparr>name = js ''logistics_app'', org = js ''mu.mt'', template = None, dir = None,
      dry_run = Some True\<rparr>"

definition keeps :: "('x state \<Rightarrow> bool) \<Rightarrow> ('x, 'a) io \<Rightarrow> bool" where
  "keeps Q m = (\<forall>st res st'. Q st \<longrightarrow> m st = (res, st') \<longrightarrow> Q st')"

definition ensures :: "('x state \<Rightarrow> bool) \<Rightarrow> ('x, 'a) io \<Rightarrow> bool" where
  "ensures Q m = (\<forall>st a st'. m st = (Inr a, st') \<longrightarrow> Q st')"

definition raises_only :: "(jsstring \<Rightarrow> bool) \<Rightarrow> ('x, 'a) io \<Rightarrow> bool" where
  "raises_only E m = (\<forall>st e st'. m st = (Inl e, st') \<longrightarrow> E e)"

definition dir_at :: "path \<Rightarrow> 'x state \<Rightarrow> bool" where
  "dir_at p st = (fs (world st) p = Some Dir)"

definition detected :: "'x os \<Rightarrow> 'x state \<Rightarrow> 'x state" where
  "detected os st =
     st\<lparr>world := probe_world os (js ''git'') (probe_world os (js ''fvm'') (world st)),
        useFvm := probe_ok os (js ''fvm'') (world st),
        trace := trace st @ [Spawn (js ''which'') [js ''fvm''] None [],
                             Spawn (js ''which'') [js ''git''] None []]\<rparr>"

definition has_git :: "'x os \<Rightarrow> 'x state \<Rightarrow> bool" where
  "has_git os st = probe_ok os (js ''git'') (probe_world os (js ''fvm'') (world st))"

definition checked :: "'x os \<Rightarrow> 'x state \<Rightarrow> 'x state" where
  "checked os st =
     (if useFvm st then st
      else st\<lparr>world := probe_world os (js ''flutter'') (world st),
              trace := trace st @ [Spawn (js ''which'') [js ''flutter''] None []]\<rparr>)"

definition header_lines :: "bool \<Rightarrow> path \<Rightarrow> request \<Rightarrow> jsstring list" where
  "header_lines fvm cwd r =
     [js ''Project:  '' @ name r, js ''Org:      '' @ org r,
      js ''Template: '' @ templateUrl r, js ''Location: '' @ path_str (projectDir cwd r),
      js ''Runner:   '' @ runner fvm]"

definition preflight_error :: "'x os \<Rightarrow> path \<Rightarrow> request \<Rightarrow> 'x state \<Rightarrow> jsstring option" where
  "preflight_error os cwd r st =
     (if \<not> probe_ok os (js ''fvm'') (world st)
         \<and> \<not> probe_ok os (js ''flutter'') (world (detected os st))
      then Some toolchain_missing
      else if \<not> has_git os st then Some git_missing
      else if fs (world (checked os (detected os st))) (projectDir cwd r) \<noteq> None
      then Some (directory_exists (projectDir cwd r))
      else None)"

definition is_preflight_event :: "path \<Rightarrow> event \<Rightarrow> bool" where
  "is_preflight_event proj e =
     (case e of
        Spawn command args cwd extraEnv \<Rightarrow> command = js ''which''
      | ExistsSync p \<Rightarrow> p = proj
      | ReadFileSync p \<Rightarrow> False
      | WriteFileSync p text \<Rightarrow> False
      | MkdirSync p \<Rightarrow> False)"

definition preflight_state :: "'x os \<Rightarrow> path \<Rightarrow> request \<Rightarrow> 'x state \<Rightarrow> 'x state" where
  "preflight_state os cwd r st =
     (let c = checked os
                ((detected os st)
                   \<lparr>log := log st @ header_lines (probe_ok os (js ''fvm'') (world st)) cwd r\<rparr>)
      in if (\<not> probe_ok os (js ''fvm'') (world st)
             \<and> \<not> probe_ok os (js ''flutter'') (world (detected os st)))
            \<or> \<not> has_git os st
         then c
         else c\<lparr>trace := trace c @ [ExistsSync (projectDir cwd r)]\<rparr>)"

definition succeeded :: "tool_result \<Rightarrow> bool" where
  "succeeded res = (case res of Content text \<Rightarrow> True | IsError text \<Rightarrow> False)"

definition scaffold_gradle :: jsstring where
  "scaffold_gradle =
     js ''android {\<newline>    compileOptions {\<newline>        x = 1\<newline>    }\<newline>\<newline>    buildTypes {\<newline>        release {\<newline>            y = 2\<newline>        }\<newline>    }\<newline>}\<newline>''"

definition scaffold_os :: "unit os" where
  "scaffold_os command args cwd extraEnv w =
     (if command = js ''which'' then
        (if args = [js ''fvm''] \<or> args = [js ''expect'']
         then Rejected [] [] (js ''which: no such command'') else Exited [] [], w)
      else if command = js ''dart'' \<and> take 3 args = [js ''pub'', js ''global'', js ''run''] then
        (Exited [] [],
         w\<lparr>fs := (fs w)
            ([js ''work'', js ''logistics_app''] \<mapsto> Dir,
             [js ''work'', js ''logistics_app'', js ''flavorizr.yaml''] \<mapsto> File [],
             [js ''work'', js ''logistics_app'', js ''android''] \<mapsto> Dir,
             [js ''work'', js ''logistics_app'', js ''android'', js ''app''] \<mapsto> Dir,
             [js ''work'', js ''logistics_app'', js ''android'', js ''app'',
              js ''build.gradle.kts''] \<mapsto> File scaffold_gradle)\<rparr>)
      else (Exited [] [], w))"

definition taken_state :: "unit state" where
  "taken_state =
     work_state\<lparr>world := work_world\<lparr>fs := (fs work_world)([js ''work'', js ''logistics_app''] \<mapsto> Dir)\<rparr>\<rparr>"

definition unprobed :: "jsstring \<Rightarrow> 'x state \<Rightarrow> bool" where
  "unprobed c st = (Spawn (js ''which'') [c] None [] \<notin> set (trace st))"

definition not_N :: "jsstring \<Rightarrow> bool" where
  "not_N e = (take 1 e \<noteq> js ''N'')"

text \<open>A machine on which \<open>which\<close> finds nothing.\<close>

definition bare_os :: "unit os" where
  "bare_os command args cwd extraEnv w =
     (if command = js ''which'' then (Rejected [] [] (js ''Command failed: which''), w)
      else (Exited [] [], w))"

text \<open>The handler's body up to the end of step 5, and from step 6 on.\<close>

definition through_step5 :: "'x os \<Rightarrow> path \<Rightarrow> request \<Rightarrow> ('x, unit) io" where
  "through_step5 os cwd r =
     andThen (detectFvm os) (\<lambda>fvm.
     andThen (write_useFvm fvm) (\<lambda>_.
     andThen (commandExists os (js ''git'')) (\<lambda>hasGit.
     andThen (header cwd r) (\<lambda>_.
     andThen (preflight os cwd r hasGit) (\<lambda>_.
     andThen (step1 os r) (\<lambda>_.
     andThen (step2 os cwd r) (\<lambda>_.
     andThen (step3 os cwd r) (\<lambda>_.
     andThen (step4 os cwd r) (\<lambda>_.
     step5 os cwd r)))))))))"

definition from_step6 :: "'x os \<Rightarrow> path \<Rightarrow> request \<Rightarrow> ('x, unit) io" where
  "from_step6 os cwd r =
     andThen (step6 cwd r) (\<lambda>_.
     andThen (step7 os cwd r) (\<lambda>_.
     andThen (step8 os cwd r) (\<lambda>_.
     andThen (step9 os cwd r) (\<lambda>_.
     andThen (step10 cwd r) (\<lambda>_.
     andThen (step11 cwd r) (\<lambda>_.
     completion cwd r))))))"

definition logs :: "nat list \<Rightarrow> ('x, 'a) io \<Rightarrow> bool" where
  "logs ks m =
     (\<forall>st a st'. m st = (Inr a, st') \<longrightarrow>
        List.map_filter step_no (log st') = List.map_filter step_no (log st) @ ks)"

definition last_line :: "jsstring \<Rightarrow> 'x state \<Rightarrow> bool" where
  "last_line l st = (log st \<noteq> [] \<and> last (log st) = l)"

text \<open>A machine without the wrapper on which the template generator makes a project
  directory that has a manifest but no flavor descriptor.\<close>

definition plain_os :: "unit os" where
  "plain_os command args cwd extraEnv w =
     (if command = js ''which'' then
        (if args = [js ''fvm''] then Rejected [] [] (js ''which: no such command'')
         else Exited [] [], w)
      else if command = js ''dart'' \<and> take 3 args = [js ''pub'', js ''global'', js ''run''] then
        (Exited [] [],
         w\<lparr>fs := (fs w)
            ([js ''work'', js ''logistics_app''] \<mapsto> Dir,
             [js ''work'', js ''logistics_app'', js ''pubspec.yaml''] \<mapsto> File [])\<rparr>)
      else (Exited [] [], w))"





text \<open>
  The pattern of the script's \<open>-re\<close> clause, as Tcl reads it: inside braces nothing is
  substituted, so the regular expression is an alternation of five literals, whose
  parentheses and brackets a backslash quotes. The clause has no \<open>-nocase\<close> flag, so
  letters match in their own case only. A text matches when one of the literals occurs
  in it.
\<close>

definition prompt_literals :: "jsstring list" where
  "prompt_literals = [js ''(Y/n)'', js ''(y/N)'', js ''[Y/n]'', js ''[y/N]'', js ''proceed'']"

definition tcl_quote :: "jsstring \<Rightarrow> jsstring" where
  "tcl_quote l = concat (map (\<lambda>c. if c \<in> set (js ''()[]'') then [0x5C, c] else [c]) l)"

fun occurs :: "jsstring \<Rightarrow> jsstring \<Rightarrow> bool" where
  "occurs needle [] = (needle = [])"
| "occurs needle (c # cs) = (prefix needle (c # cs) \<or> occurs needle cs)"

definition prompt_RE :: "jsstring \<Rightarrow> bool" where
  "prompt_RE out = list_ex (\<lambda>l. occurs l out) prompt_literals"

text \<open>The matcher of the specification's words: the same literals, compared without
  regard to the case of the letters.\<close>

definition toLowerCase_unit :: "unit16 \<Rightarrow> unit16" where
  "toLowerCase_unit c = (if 0x41 \<le> c \<and> c \<le> 0x5A then c + 0x20 else c)"

definition spec_prompt_RE :: "jsstring \<Rightarrow> bool" where
  "spec_prompt_RE out =
     list_ex (\<lambda>l. occurs (map toLowerCase_unit l) (map toLowerCase_unit out)) prompt_literals"

text \<open>The state after the probe \<open>which c\<close>.\<close>

definition probed :: "'x os \<Rightarrow> jsstring \<Rightarrow> 'x state \<Rightarrow> 'x state" where
  "probed os c st =
     st\<lparr>world := probe_world os c (world st),
        trace := trace st @ [Spawn (js ''which'') [c] None []]\<rparr>"







section \<open>Facts about strings\<close>

lemma unat_of_char16: "unat (of_char c :: unit16) = of_char c"
proof -
  have "(of_char c :: nat) < 2 ^ LENGTH(16)"
    by (rule less_trans [OF nat_of_char_less_256]) simp
  then have "unat (word_of_nat (of_char c) :: unit16) = of_char c"
    by (rule of_nat_inverse [OF refl])
  then show ?thesis by (simp only: of_nat_of_char)
qed

lemma of_char16_inj: "inj (of_char :: char \<Rightarrow> unit16)"
proof (rule injI)
  fix c d :: char
  assume "(of_char c :: unit16) = of_char d"
  then have "unat (of_char c :: unit16) = unat (of_char d :: unit16)" by simp
  then have "(of_char c :: nat) = of_char d" by (simp only: unat_of_char16)
  then show "c = d" by (simp only: of_char_eq_iff)
qed

lemma js_eq_iff: "js s = js t \<longleftrightarrow> s = t"
  using of_char16_inj by (simp add: js_def)

lemma js_append: "js (s @ t) = js s @ js t"
  by (simp add: js_def)

lemma js_Nil: "js [] = []"
  by (simp add: js_def)

lemma js_Cons: "js (c # s) = of_char c # js s"
  by (simp add: js_def)









section \<open>The pipeline in dry-run mode\<close>

lemma commandExists_eq:
  "commandExists os c st =
     (Inr (probe_ok os c (world st)),
      st\<lparr>world := probe_world os c (world st),
         trace := trace st @ [Spawn (js ''which'') [c] None []]\<rparr>)"
  by (simp add: commandExists_def execFileAsync_def probe_ok_def probe_world_def
      split: prod.splits exec_result.splits)

lemma detectFvm_eq: "detectFvm os = commandExists os (js ''fvm'')"
  by (rule ext) (simp add: commandExists_def detectFvm_def)

lemmas io_defs = ok_def throw_def andThen_def discard_def push_def read_useFvm_def
  write_useFvm_def
lemmas step_defs = header_def preflight_def step1_def step2_def step3_def step4_def step5_def
  step6_def step7_def step8_def step9_def step10_def step11_def completion_def steps_def

lemma stepMsg_split: "stepMsg k m = stepMsg k [] @ m"
  by (simp add: stepMsg_def)

lemma stepMsg_small:
  "stepMsg (Suc 0) [] = js ''[1/11] ''" "stepMsg 2 [] = js ''[2/11] ''"
  "stepMsg 3 [] = js ''[3/11] ''" "stepMsg 4 [] = js ''[4/11] ''"
  "stepMsg 5 [] = js ''[5/11] ''" "stepMsg 6 [] = js ''[6/11] ''"
  "stepMsg 7 [] = js ''[7/11] ''" "stepMsg 8 [] = js ''[8/11] ''"
  "stepMsg 9 [] = js ''[9/11] ''" "stepMsg 10 [] = js ''[10/11] ''"
  "stepMsg 11 [] = js ''[11/11] ''"
  by code_simp+

lemma step_no_eq:
  "step_no line =
     (if prefix (js ''[1/11] '') line then Some 1
      else if prefix (js ''[2/11] '') line then Some 2
      else if prefix (js ''[3/11] '') line then Some 3
      else if prefix (js ''[4/11] '') line then Some 4
      else if prefix (js ''[5/11] '') line then Some 5
      else if prefix (js ''[6/11] '') line then Some 6
      else if prefix (js ''[7/11] '') line then Some 7
      else if prefix (js ''[8/11] '') line then Some 8
      else if prefix (js ''[9/11] '') line then Some 9
      else if prefix (js ''[10/11] '') line then Some 10
      else if prefix (js ''[11/11] '') line then Some 11
      else None)"
  by (simp add: step_no_def stepMsg_small)

lemma step_no_other: "c \<noteq> 0x5B \<Longrightarrow> step_no (c # rest) = None"
  by (simp add: step_no_eq js_def)


lemma step_no_stepMsg:
  "step_no (stepMsg (Suc 0) m) = Some 1" "step_no (stepMsg 2 m) = Some 2"
  "step_no (stepMsg 3 m) = Some 3" "step_no (stepMsg 4 m) = Some 4"
  "step_no (stepMsg 5 m) = Some 5" "step_no (stepMsg 6 m) = Some 6"
  "step_no (stepMsg 7 m) = Some 7" "step_no (stepMsg 8 m) = Some 8"
  "step_no (stepMsg 9 m) = Some 9" "step_no (stepMsg 10 m) = Some 10"
  "step_no (stepMsg 11 m) = Some 11"
  by (simp_all add: step_no_eq stepMsg_split [of _ m] stepMsg_small js_def)









section \<open>Pre-flight checks\<close>

lemma andThen_cases:
  assumes "andThen m f st = (res, st2)"
  obtains (raised) e where "m st = (Inl e, st2)" "res = Inl e"
  | (passed) a st1 where "m st = (Inr a, st1)" "f a st1 = (res, st2)"
  using assms by (auto simp: andThen_def split: prod.splits sum.splits)

lemma keeps_andThen: "keeps Q m \<Longrightarrow> (\<And>a. keeps Q (f a)) \<Longrightarrow> keeps Q (andThen m f)"
  unfolding keeps_def by (metis andThen_cases)

lemma ensures_andThen_fst: "ensures Q m \<Longrightarrow> (\<And>a. keeps Q (f a)) \<Longrightarrow> ensures Q (andThen m f)"
  unfolding keeps_def ensures_def by (metis andThen_cases sum.distinct(1))

lemma ensures_andThen_snd: "(\<And>a. ensures Q (f a)) \<Longrightarrow> ensures Q (andThen m f)"
  unfolding ensures_def by (metis andThen_cases sum.distinct(1))

lemma raises_only_andThen:
  "raises_only E m \<Longrightarrow> (\<And>a. raises_only E (f a)) \<Longrightarrow> raises_only E (andThen m f)"
  unfolding raises_only_def by (metis andThen_cases sum.inject(1))

lemma keeps_if: "keeps Q m \<Longrightarrow> keeps Q n \<Longrightarrow> keeps Q (if b then m else n)"
  by simp

lemma keeps_discard: "keeps Q m \<Longrightarrow> keeps Q (discard m)"
  unfolding discard_def by (rule keeps_andThen) (auto simp: keeps_def ok_def)

lemma keeps_ok: "keeps Q (ok a)"
  by (simp add: keeps_def ok_def)

lemma keeps_throw: "keeps Q (throw e)"
  by (simp add: keeps_def throw_def)

lemma keeps_read_useFvm: "keeps Q read_useFvm"
  by (simp add: keeps_def read_useFvm_def)

lemma dir_at_push: "keeps (dir_at p) (push msg)"
  by (auto simp: keeps_def push_def dir_at_def)

lemma dir_at_existsSync: "keeps (dir_at p) (existsSync q)"
  by (auto simp: keeps_def existsSync_def dir_at_def)

lemma dir_at_readFileSync: "keeps (dir_at p) (readFileSync q)"
  by (auto simp: keeps_def readFileSync_def dir_at_def Let_def split: option.splits node.splits)

lemma dir_at_writeFileSync: "q \<noteq> p \<Longrightarrow> keeps (dir_at p) (writeFileSync q text)"
  by (auto simp: keeps_def writeFileSync_def dir_at_def Let_def split: option.splits node.splits)

lemma dir_at_mkdirSync_keeps: "keeps (dir_at p) (mkdirSync q)"
  by (auto simp: keeps_def mkdirSync_def dir_at_def Let_def split: if_splits)

lemma dir_at_mkdirSync: "prefix p q \<Longrightarrow> ensures (dir_at p) (mkdirSync q)"
  by (auto simp: ensures_def mkdirSync_def dir_at_def Let_def split: if_splits)

lemma dir_at_write_configs: "keeps (dir_at p) (write_configs (p @ [c]) envs)"
proof (induction envs)
  case Nil
  show ?case by (simp add: keeps_ok)
next
  case (Cons env envs)
  show ?case
    by (simp, rule keeps_andThen, rule dir_at_writeFileSync, simp, rule Cons)
qed

lemma dir_at_step10:
  assumes "\<not> dryRun r"
  shows "ensures (dir_at (projectDir cwd r)) (step10 cwd r)"
  unfolding step10_def if_not_P [OF assms]
  apply (rule ensures_andThen_snd)
  apply (rule ensures_andThen_fst)
   apply (rule ensures_andThen_fst)
    apply (rule dir_at_mkdirSync)
    apply simp
   apply (rule dir_at_write_configs)
  apply (rule dir_at_push)
  done

lemma dir_at_configure_android: "keeps (dir_at p) (configure_android p)"
  unfolding configure_android_def gradlePath_def proguardPath_def
  by (intro keeps_andThen keeps_if keeps_throw dir_at_existsSync dir_at_readFileSync
      dir_at_writeFileSync dir_at_push) simp_all

lemma dir_at_step11:
  assumes "\<not> dryRun r"
  shows "keeps (dir_at (projectDir cwd r)) (step11 cwd r)"
  unfolding step11_def if_not_P [OF assms]
  by (intro keeps_andThen dir_at_push dir_at_configure_android)

lemma dir_at_completion: "keeps (dir_at p) (completion cwd r)"
  unfolding completion_def
  by (intro keeps_andThen keeps_if dir_at_push)

lemma dir_at_steps:
  assumes "\<not> dryRun r"
  shows "ensures (dir_at (projectDir cwd r)) (steps os cwd r)"
  unfolding steps_def
  apply (rule ensures_andThen_snd, rule ensures_andThen_snd, rule ensures_andThen_snd)
  apply (rule ensures_andThen_snd, rule ensures_andThen_snd, rule ensures_andThen_snd)
  apply (rule ensures_andThen_snd, rule ensures_andThen_snd, rule ensures_andThen_snd)
  apply (rule ensures_andThen_fst)
   apply (rule dir_at_step10 [OF assms])
  apply (rule dir_at_step11 [OF assms])
  done

lemma dir_at_provision:
  assumes "\<not> dryRun r"
  shows "ensures (dir_at (projectDir cwd r)) (provision os cwd r)"
  unfolding provision_def
  apply (rule ensures_andThen_snd, rule ensures_andThen_snd, rule ensures_andThen_snd)
  apply (rule ensures_andThen_snd, rule ensures_andThen_snd)
  apply (rule ensures_andThen_fst)
   apply (rule dir_at_steps [OF assms])
  apply (rule dir_at_completion)
  done

lemma andThen_Inr: "m st = (Inr a, st') \<Longrightarrow> andThen m f st = f a st'"
  by (simp add: andThen_def)

lemma andThen_Inl: "m st = (Inl e, st') \<Longrightarrow> andThen m f st = (Inl e, st')"
  by (simp add: andThen_def)

lemma provision_detected:
  "provision os cwd r st =
     andThen (header cwd r) (\<lambda>_.
     andThen (preflight os cwd r (has_git os st)) (\<lambda>_.
     andThen (steps os cwd r) (\<lambda>_.
     completion cwd r))) (detected os st)"
proof -
  let ?st1 = "st\<lparr>world := probe_world os (js ''fvm'') (world st),
                  trace := trace st @ [Spawn (js ''which'') [js ''fvm''] None []]\<rparr>"
  let ?st2 = "?st1\<lparr>useFvm := probe_ok os (js ''fvm'') (world st)\<rparr>"
  have 1: "detectFvm os st = (Inr (probe_ok os (js ''fvm'') (world st)), ?st1)"
    by (simp add: detectFvm_eq commandExists_eq)
  have 2: "write_useFvm (probe_ok os (js ''fvm'') (world st)) ?st1 = (Inr (), ?st2)"
    by (simp add: write_useFvm_def)
  have 3: "commandExists os (js ''git'') ?st2 = (Inr (has_git os st), detected os st)"
    by (simp add: commandExists_eq has_git_def detected_def)
  show ?thesis
    unfolding provision_def
    by (simp only: andThen_Inr [of "detectFvm os" st, OF 1]
        andThen_Inr [of "write_useFvm (probe_ok os (js ''fvm'') (world st))" ?st1, OF 2]
        andThen_Inr [of "commandExists os (js ''git'')" ?st2, OF 3])
qed

lemma header_nondry:
  "\<not> dryRun r \<Longrightarrow>
   header cwd r st = (Inr (), st\<lparr>log := log st @ header_lines (useFvm st) cwd r\<rparr>)"
  by (simp add: header_def header_lines_def andThen_def read_useFvm_def push_def ok_def)

lemma preflight_nondry:
  "\<not> dryRun r \<Longrightarrow>
   preflight os cwd r g st =
     (if \<not> useFvm st \<and> \<not> probe_ok os (js ''flutter'') (world st)
      then (Inl toolchain_missing, checked os st)
      else if \<not> g then (Inl git_missing, checked os st)
      else (if fs (world (checked os st)) (projectDir cwd r) \<noteq> None
            then Inl (directory_exists (projectDir cwd r)) else Inr (),
            (checked os st)\<lparr>trace := trace (checked os st) @ [ExistsSync (projectDir cwd r)]\<rparr>))"
  by (auto simp: preflight_def check_toolchain_def check_directory_def commandExists_eq
      existsSync_def checked_def andThen_def read_useFvm_def ok_def throw_def)

lemma provision_preflight:
  assumes "\<not> dryRun r"
  shows "provision os cwd r st =
     (case preflight_error os cwd r st of
        Some e \<Rightarrow> (Inl e, preflight_state os cwd r st)
      | None \<Rightarrow>
          andThen (steps os cwd r) (\<lambda>_. completion cwd r) (preflight_state os cwd r st))"
proof -
  let ?d = "detected os st"
  let ?h = "?d\<lparr>log := log ?d @ header_lines (useFvm ?d) cwd r\<rparr>"
  have h: "header cwd r ?d = (Inr (), ?h)"
    by (rule header_nondry [OF assms])
  have d: "useFvm ?d = probe_ok os (js ''fvm'') (world st)" "log ?d = log st"
    by (simp_all add: detected_def)
  show ?thesis
    unfolding provision_detected andThen_Inr [of "header cwd r" ?d, OF h]
      preflight_error_def preflight_state_def
    by (auto simp: andThen_def preflight_nondry [OF assms] d checked_def Let_def)
qed

lemma scaffold_run_succeeds:
  "succeeded (fst (create_flutter_project scaffold_os [js ''work'']
                    (logistics\<lparr>dry_run := None\<rparr>) work_state))"
  by (simp add: succeeded_def create_flutter_project_def provision_def io_defs step_defs
      detectFvm_def commandExists_def execFileAsync_def run_def runInteractive_def
      existsSync_def readFileSync_def writeFileSync_def mkdirSync_def is_file_def
      check_toolchain_def check_directory_def git_init_def git_hooks_def
      update_flavorizr_def configure_android_def gradlePath_def proguardPath_def
      scaffold_os_def work_state_def work_world_def logistics_def dryRun_def projectDir_def
      parentDir_def fvmCmd_def fvmArgs_def starterArgs_def js_eq_iff Let_def)

lemma header_no_step: "List.map_filter step_no (header_lines fvm cwd r) = []"
  by (simp add: List.map_filter_def header_lines_def step_no_other js_def)

lemma preflight_state_log:
  "log (preflight_state os cwd r st)
     = log st @ header_lines (probe_ok os (js ''fvm'') (world st)) cwd r"
  by (simp add: preflight_state_def checked_def detected_def Let_def)

lemma preflight_state_trace:
  "list_all (is_preflight_event (projectDir cwd r))
     (drop (length (trace st)) (trace (preflight_state os cwd r st)))"
  by (simp add: preflight_state_def checked_def detected_def Let_def is_preflight_event_def)

lemma preflight_abort_run:
  assumes nd: "\<not> dryRun r" and e: "preflight_error os cwd r st = Some e"
  shows "create_flutter_project os cwd r st =
           (IsError (failure_text e (header_lines (probe_ok os (js ''fvm'') (world st)) cwd r)),
            preflight_state os cwd r (st\<lparr>log := []\<rparr>))"
proof -
  have "preflight_error os cwd r (st\<lparr>log := []\<rparr>) = preflight_error os cwd r st"
    by (auto simp: preflight_error_def detected_def checked_def has_git_def)
  with e have "preflight_error os cwd r (st\<lparr>log := []\<rparr>) = Some e"
    by simp
  then have "provision os cwd r (st\<lparr>log := []\<rparr>) = (Inl e, preflight_state os cwd r (st\<lparr>log := []\<rparr>))"
    by (simp add: provision_preflight [OF nd])
  then show ?thesis
    by (simp add: create_flutter_project_def preflight_state_log)
qed

lemma success_passes_preflight:
  assumes nd: "\<not> dryRun r" and ok: "succeeded (fst (create_flutter_project os cwd r st))"
  shows "preflight_error os cwd r st = None"
proof (cases "preflight_error os cwd r st")
  case (Some e)
  from preflight_abort_run [OF nd Some] ok show ?thesis
    by (simp add: succeeded_def)
qed simp

lemma success_leaves_directory:
  assumes nd: "\<not> dryRun r" and ok: "succeeded (fst (create_flutter_project os cwd r st))"
  shows "fs (world (snd (create_flutter_project os cwd r st))) (projectDir cwd r) = Some Dir"
proof -
  obtain res st1 where p: "provision os cwd r (st\<lparr>log := []\<rparr>) = (res, st1)"
    by (cases "provision os cwd r (st\<lparr>log := []\<rparr>)")
  with ok obtain u where res: "res = Inr u"
    by (cases res) (simp_all add: create_flutter_project_def succeeded_def)
  from dir_at_provision [OF nd, of cwd os] p res have "dir_at (projectDir cwd r) st1"
    unfolding ensures_def by blast
  with p res show ?thesis
    by (simp add: create_flutter_project_def dir_at_def)
qed

text \<open>
  Claim C2. In a run that is not a dry run, the first violated pre-flight requirement
  (\<open>preflight_error\<close>: neither the runner nor a direct Flutter found, no version control
  found, or the project directory present, as the handler checks them) ends the run with
  that failure. The log then holds the five header lines only, so no line of a step and
  none of an accomplishment, and since the start the handler has done nothing but probe
  with \<open>which\<close> and test the project directory for existence: the run stopped before
  step 1. In particular, after a run that succeeded, a second run with the same request
  fails with the directory-already-exists error and the same header-only log, when the
  probes change nothing and find the same tools as in the first run.
\<close>

theorem preflight_aborts:
  assumes nd: "\<not> dryRun r"
  shows "(\<forall>e. preflight_error os cwd r st = Some e \<longrightarrow>
            fst (create_flutter_project os cwd r st)
              = IsError (failure_text e
                           (header_lines (probe_ok os (js ''fvm'') (world st)) cwd r))
            \<and> log (snd (create_flutter_project os cwd r st))
              = header_lines (probe_ok os (js ''fvm'') (world st)) cwd r
            \<and> List.map_filter step_no (log (snd (create_flutter_project os cwd r st))) = []
            \<and> list_all (is_preflight_event (projectDir cwd r))
                (drop (length (trace st)) (trace (snd (create_flutter_project os cwd r st)))))
    \<and> (succeeded (fst (create_flutter_project os cwd r st))
        \<and> (\<forall>c w. probe_world os c w = w)
        \<and> (\<forall>c. probe_ok os c (world (snd (create_flutter_project os cwd r st)))
                 = probe_ok os c (world st)) \<longrightarrow>
          fst (create_flutter_project os cwd r (snd (create_flutter_project os cwd r st)))
            = IsError (failure_text (directory_exists (projectDir cwd r))
                         (header_lines (probe_ok os (js ''fvm'') (world st)) cwd r))
          \<and> log (snd (create_flutter_project os cwd r
                        (snd (create_flutter_project os cwd r st))))
            = header_lines (probe_ok os (js ''fvm'') (world st)) cwd r)"
proof (intro conjI allI impI)
  fix e
  assume e: "preflight_error os cwd r st = Some e"
  note run = preflight_abort_run [OF nd e]
  show "fst (create_flutter_project os cwd r st)
          = IsError (failure_text e (header_lines (probe_ok os (js ''fvm'') (world st)) cwd r))"
    by (simp add: run)
  show l: "log (snd (create_flutter_project os cwd r st))
          = header_lines (probe_ok os (js ''fvm'') (world st)) cwd r"
    by (simp add: run preflight_state_log)
  show "List.map_filter step_no (log (snd (create_flutter_project os cwd r st))) = []"
    by (simp add: l header_no_step)
  show "list_all (is_preflight_event (projectDir cwd r))
          (drop (length (trace st)) (trace (snd (create_flutter_project os cwd r st))))"
    using preflight_state_trace [of cwd r "st\<lparr>log := []\<rparr>" os] by (simp add: run)
next
  let ?st1 = "snd (create_flutter_project os cwd r st)"
  assume h: "succeeded (fst (create_flutter_project os cwd r st))
        \<and> (\<forall>c w. probe_world os c w = w)
        \<and> (\<forall>c. probe_ok os c (world ?st1) = probe_ok os c (world st))"
  then have ok: "succeeded (fst (create_flutter_project os cwd r st))"
    and ro: "\<And>c w. probe_world os c w = w"
    and same: "\<And>c. probe_ok os c (world ?st1) = probe_ok os c (world st)"
    by blast+
  have none: "preflight_error os cwd r st = None"
    by (rule success_passes_preflight [OF nd ok])
  have dir: "fs (world ?st1) (projectDir cwd r) = Some Dir"
    by (rule success_leaves_directory [OF nd ok])
  have e: "preflight_error os cwd r ?st1 = Some (directory_exists (projectDir cwd r))"
    using none dir
    by (simp add: preflight_error_def detected_def checked_def has_git_def ro same
        split: if_splits)
  note run = preflight_abort_run [OF nd e]
  show "fst (create_flutter_project os cwd r ?st1)
          = IsError (failure_text (directory_exists (projectDir cwd r))
                       (header_lines (probe_ok os (js ''fvm'') (world st)) cwd r))"
    by (simp add: run same)
  show "log (snd (create_flutter_project os cwd r ?st1))
          = header_lines (probe_ok os (js ''fvm'') (world st)) cwd r"
    by (simp add: run preflight_state_log same)
qed

theorem preflight_aborts_witness:
  "\<not> dryRun (logistics\<lparr>dry_run := None\<rparr>)
   \<and> preflight_error idle_os [js ''work''] (logistics\<lparr>dry_run := None\<rparr>) taken_state
       = Some (directory_exists [js ''work'', js ''logistics_app''])
   \<and> fst (create_flutter_project idle_os [js ''work''] (logistics\<lparr>dry_run := None\<rparr>) taken_state)
       = IsError (failure_text (directory_exists [js ''work'', js ''logistics_app''])
                   (header_lines True [js ''work''] (logistics\<lparr>dry_run := None\<rparr>)))
   \<and> succeeded (fst (create_flutter_project scaffold_os [js ''work'']
                       (logistics\<lparr>dry_run := None\<rparr>) work_state))
   \<and> fst (create_flutter_project scaffold_os [js ''work''] (logistics\<lparr>dry_run := None\<rparr>)
            (snd (create_flutter_project scaffold_os [js ''work'']
                    (logistics\<lparr>dry_run := None\<rparr>) work_state)))
       = IsError (failure_text (directory_exists [js ''work'', js ''logistics_app''])
                   (header_lines False [js ''work''] (logistics\<lparr>dry_run := None\<rparr>)))"
proof -
  let ?r = "logistics\<lparr>dry_run := None\<rparr>"
  have nd: "\<not> dryRun ?r"
    by (simp add: dryRun_def logistics_def)
  have p: "projectDir [js ''work''] ?r = [js ''work'', js ''logistics_app'']"
    by (simp add: projectDir_def parentDir_def logistics_def)
  have e: "preflight_error idle_os [js ''work''] ?r taken_state
             = Some (directory_exists [js ''work'', js ''logistics_app''])"
    by (simp add: preflight_error_def p detected_def checked_def has_git_def probe_ok_def
        probe_world_def idle_os_def taken_state_def work_state_def work_world_def)
  have f: "probe_ok idle_os (js ''fvm'') (world taken_state)"
    by (simp add: probe_ok_def idle_os_def)
  have ro: "\<forall>c w. probe_world scaffold_os c w = w"
    by (simp add: probe_world_def scaffold_os_def)
  have same: "\<forall>c. probe_ok scaffold_os c
                   (world (snd (create_flutter_project scaffold_os [js ''work''] ?r work_state)))
                 = probe_ok scaffold_os c (world work_state)"
    by (simp add: probe_ok_def scaffold_os_def)
  have g: "\<not> probe_ok scaffold_os (js ''fvm'') (world work_state)"
    by (simp add: probe_ok_def scaffold_os_def)
  from preflight_aborts [OF nd, of idle_os "[js ''work'']" taken_state]
    preflight_aborts [OF nd, of scaffold_os "[js ''work'']" work_state]
    scaffold_run_succeeds e f g ro same nd
  show ?thesis
    by (simp add: p)
qed

section \<open>The toolchain check\<close>

lemma raises_only_if:
  "raises_only E m \<Longrightarrow> raises_only E n \<Longrightarrow> raises_only E (if b then m else n)"
  by simp

lemma raises_only_ok: "raises_only E (ok a)"
  by (simp add: raises_only_def ok_def)

lemma raises_only_throw: "E e \<Longrightarrow> raises_only E (throw e)"
  by (simp add: raises_only_def throw_def)

lemma raises_only_discard: "raises_only E m \<Longrightarrow> raises_only E (discard m)"
  unfolding discard_def by (rule raises_only_andThen) (auto simp: raises_only_ok)

lemma raises_only_push: "raises_only E (push msg)"
  by (simp add: raises_only_def push_def)

lemma raises_only_read_useFvm: "raises_only E read_useFvm"
  by (simp add: raises_only_def read_useFvm_def)

lemma raises_only_commandExists: "raises_only E (commandExists os c)"
  by (simp add: raises_only_def commandExists_eq)

lemma raises_only_existsSync: "raises_only E (existsSync p)"
  by (simp add: raises_only_def existsSync_def)

lemma not_N_run: "raises_only not_N (run os command args cwd extraEnv)"
  by (auto simp: raises_only_def run_def not_N_def js_def split: prod.splits exec_result.splits)

lemma not_N_readFileSync: "raises_only not_N (readFileSync p)"
  by (auto simp: raises_only_def readFileSync_def not_N_def js_def Let_def
      split: option.splits node.splits)

lemma not_N_writeFileSync: "raises_only not_N (writeFileSync p text)"
  by (auto simp: raises_only_def writeFileSync_def not_N_def js_def Let_def
      split: option.splits node.splits)

lemma not_N_mkdirSync: "raises_only not_N (mkdirSync p)"
  by (auto simp: raises_only_def mkdirSync_def not_N_def js_def Let_def split: if_splits)

lemma not_N_flavorizr_missing: "not_N (flavorizr_missing p)"
  by (simp add: not_N_def flavorizr_missing_def js_def)

lemma not_N_gradle_missing: "not_N (gradle_missing p)"
  by (simp add: not_N_def gradle_missing_def js_def)

lemma not_N_write_configs: "raises_only not_N (write_configs d envs)"
  by (induction envs) (auto intro: raises_only_ok raises_only_andThen not_N_writeFileSync)

lemmas not_N_intros = raises_only_andThen raises_only_if raises_only_ok raises_only_discard
  raises_only_push raises_only_read_useFvm raises_only_commandExists raises_only_existsSync
  not_N_run not_N_readFileSync not_N_writeFileSync not_N_mkdirSync not_N_write_configs
  raises_only_throw not_N_flavorizr_missing not_N_gradle_missing

lemma not_N_steps: "raises_only not_N (steps os cwd r)"
  unfolding steps_def step1_def step2_def step3_def step4_def step5_def step6_def step7_def
    step8_def step9_def step10_def step11_def git_init_def git_hooks_def update_flavorizr_def
    configure_android_def runInteractive_def
  by (intro not_N_intros)

lemma not_N_completion: "raises_only not_N (completion cwd r)"
  unfolding completion_def by (intro not_N_intros)

lemma unprobed_push: "keeps (unprobed c) (push msg)"
  by (simp add: keeps_def push_def unprobed_def)

lemma unprobed_existsSync: "keeps (unprobed c) (existsSync p)"
  by (auto simp: keeps_def existsSync_def unprobed_def)

lemma unprobed_readFileSync: "keeps (unprobed c) (readFileSync p)"
  by (auto simp: keeps_def readFileSync_def unprobed_def Let_def split: option.splits node.splits)

lemma unprobed_writeFileSync: "keeps (unprobed c) (writeFileSync p text)"
  by (auto simp: keeps_def writeFileSync_def unprobed_def Let_def
      split: option.splits node.splits)

lemma unprobed_mkdirSync: "keeps (unprobed c) (mkdirSync p)"
  by (auto simp: keeps_def mkdirSync_def unprobed_def Let_def split: if_splits)

lemma unprobed_commandExists: "c' \<noteq> c \<Longrightarrow> keeps (unprobed c) (commandExists os c')"
  by (auto simp: keeps_def commandExists_eq unprobed_def)

lemma unprobed_run:
  "command \<noteq> js ''which'' \<Longrightarrow> keeps (unprobed c) (run os command args cwd extraEnv)"
  by (auto simp: keeps_def run_def execFileAsync_def unprobed_def
      split: prod.splits exec_result.splits)

lemma unprobed_write_configs: "keeps (unprobed c) (write_configs d envs)"
  by (induction envs) (auto intro: keeps_ok keeps_andThen unprobed_writeFileSync)

lemmas unprobed_intros = keeps_andThen keeps_if keeps_ok keeps_throw keeps_discard
  keeps_read_useFvm unprobed_push unprobed_existsSync unprobed_readFileSync
  unprobed_writeFileSync unprobed_mkdirSync unprobed_write_configs unprobed_commandExists
  unprobed_run

lemma unprobed_steps: "keeps (unprobed (js ''flutter'')) (steps os cwd r)"
  unfolding steps_def step1_def step2_def step3_def step4_def step5_def step6_def step7_def
    step8_def step9_def step10_def step11_def git_init_def git_hooks_def update_flavorizr_def
    configure_android_def runInteractive_def
  by (intro unprobed_intros) (simp_all add: fvmCmd_def js_eq_iff)

lemma unprobed_completion: "keeps (unprobed c) (completion cwd r)"
  unfolding completion_def by (intro unprobed_intros)

lemma toolchain_missing_N: "\<not> not_N toolchain_missing"
  by (simp add: not_N_def toolchain_missing_def js_def)

lemma after_preflight_not_N:
  "andThen (steps os cwd r) (\<lambda>_. completion cwd r) st = (Inl e, st') \<Longrightarrow> not_N e"
  using raises_only_andThen [OF not_N_steps, of "\<lambda>_. completion cwd r" os cwd r]
    not_N_completion [of cwd r]
  unfolding raises_only_def by blast

lemma after_preflight_unprobed:
  "unprobed (js ''flutter'') st \<Longrightarrow>
   andThen (steps os cwd r) (\<lambda>_. completion cwd r) st = (res, st') \<Longrightarrow>
   unprobed (js ''flutter'') st'"
  using keeps_andThen [OF unprobed_steps, of "\<lambda>_. completion cwd r" os cwd r]
    unprobed_completion [of "js ''flutter''" cwd r]
  unfolding keeps_def by blast

lemma provision_toolchain:
  assumes nd: "\<not> dryRun r"
  shows "fst (provision os cwd r st) = Inl toolchain_missing \<longleftrightarrow>
         \<not> probe_ok os (js ''fvm'') (world st)
         \<and> \<not> probe_ok os (js ''flutter'') (world (detected os st))"
proof (cases "preflight_error os cwd r st")
  case None
  then have ok: "\<not> (\<not> probe_ok os (js ''fvm'') (world st)
         \<and> \<not> probe_ok os (js ''flutter'') (world (detected os st)))"
    by (auto simp: preflight_error_def split: if_splits)
  obtain res st' where run:
    "andThen (steps os cwd r) (\<lambda>_. completion cwd r) (preflight_state os cwd r st) = (res, st')"
    by (cases "andThen (steps os cwd r) (\<lambda>_. completion cwd r) (preflight_state os cwd r st)")
  have "res \<noteq> Inl toolchain_missing"
  proof
    assume "res = Inl toolchain_missing"
    with after_preflight_not_N run have "not_N toolchain_missing" by blast
    then show False by (simp add: toolchain_missing_N)
  qed
  with None run ok show ?thesis
    by (simp add: provision_preflight [OF nd])
next
  case (Some e)
  have g: "git_missing \<noteq> toolchain_missing"
    by (simp add: git_missing_def toolchain_missing_def js_eq_iff)
  have d: "directory_exists p \<noteq> toolchain_missing" for p
    by (simp add: directory_exists_def toolchain_missing_def js_def)
  from Some show ?thesis
    by (auto simp: provision_preflight [OF nd] preflight_error_def g d split: if_splits)
qed

lemma provision_no_flutter_probe:
  assumes nd: "\<not> dryRun r" and fvm: "probe_ok os (js ''fvm'') (world st)"
    and u: "unprobed (js ''flutter'') st"
  shows "unprobed (js ''flutter'') (snd (provision os cwd r st))"
proof -
  have p: "unprobed (js ''flutter'') (preflight_state os cwd r st)"
    using u fvm
    by (simp add: unprobed_def preflight_state_def checked_def detected_def Let_def js_eq_iff)
  show ?thesis
  proof (cases "preflight_error os cwd r st")
    case None
    obtain res st' where run:
      "andThen (steps os cwd r) (\<lambda>_. completion cwd r) (preflight_state os cwd r st) = (res, st')"
      by (cases "andThen (steps os cwd r) (\<lambda>_. completion cwd r) (preflight_state os cwd r st)")
    with after_preflight_unprobed [OF p run] None show ?thesis
      by (simp add: provision_preflight [OF nd])
  next
    case (Some e)
    with p show ?thesis
      by (simp add: provision_preflight [OF nd])
  qed
qed

lemma check_toolchain_wrapped: "useFvm st \<Longrightarrow> check_toolchain os st = (Inr (), st)"
  by (simp add: check_toolchain_def andThen_def read_useFvm_def ok_def)

lemma failure_text_N:
  assumes "failure_text e lines = failure_text toolchain_missing lines'"
  shows "\<not> not_N e"
proof -
  from assms have eq: "e @ js ''\<newline>\<newline>Progress so far:\<newline>'' @ join (js ''\<newline>'') lines
      = toolchain_missing @ js ''\<newline>\<newline>Progress so far:\<newline>'' @ join (js ''\<newline>'') lines'"
    by (simp add: failure_text_def)
  show ?thesis
  proof (cases e)
    case Nil
    with eq show ?thesis by (simp add: toolchain_missing_def js_def)
  next
    case (Cons c cs)
    with eq show ?thesis by (simp add: not_N_def toolchain_missing_def js_def)
  qed
qed

lemma handler_toolchain:
  assumes nd: "\<not> dryRun r"
  shows "(\<exists>lines. fst (create_flutter_project os cwd r st)
                    = IsError (failure_text toolchain_missing lines)) \<longleftrightarrow>
         \<not> probe_ok os (js ''fvm'') (world st)
         \<and> \<not> probe_ok os (js ''flutter'') (world (detected os st))"
proof
  assume "\<not> probe_ok os (js ''fvm'') (world st)
         \<and> \<not> probe_ok os (js ''flutter'') (world (detected os st))"
  then have "preflight_error os cwd r st = Some toolchain_missing"
    by (simp add: preflight_error_def)
  from preflight_abort_run [OF nd this]
  show "\<exists>lines. fst (create_flutter_project os cwd r st)
                    = IsError (failure_text toolchain_missing lines)"
    by auto
next
  let ?st = "st\<lparr>log := []\<rparr>"
  assume "\<exists>lines. fst (create_flutter_project os cwd r st)
                    = IsError (failure_text toolchain_missing lines)"
  then obtain lines where l: "fst (create_flutter_project os cwd r st)
                    = IsError (failure_text toolchain_missing lines)" ..
  obtain res st' where p: "provision os cwd r ?st = (res, st')"
    by (cases "provision os cwd r ?st")
  with l obtain e where e: "res = Inl e"
    "failure_text e (log st') = failure_text toolchain_missing lines"
    by (cases res) (simp_all add: create_flutter_project_def)
  have N: "\<not> not_N e" by (rule failure_text_N [OF e(2)])
  have w: "world ?st = world st" "detected os ?st = (detected os st)\<lparr>log := []\<rparr>"
    by (simp_all add: detected_def)
  have "e = toolchain_missing"
  proof (cases "preflight_error os cwd r ?st")
    case None
    with p e have "andThen (steps os cwd r) (\<lambda>_. completion cwd r)
                     (preflight_state os cwd r ?st) = (Inl e, st')"
      by (simp add: provision_preflight [OF nd])
    from after_preflight_not_N [OF this] N show ?thesis by simp
  next
    case (Some e')
    with p e have "e' = e" by (simp add: provision_preflight [OF nd])
    moreover have "not_N git_missing" "not_N (directory_exists q)" for q
      by (simp_all add: not_N_def git_missing_def directory_exists_def js_def)
    ultimately show ?thesis
      using Some N by (auto simp: preflight_error_def split: if_splits)
  qed
  with p e have "fst (provision os cwd r ?st) = Inl toolchain_missing" by simp
  then show "\<not> probe_ok os (js ''fvm'') (world st)
         \<and> \<not> probe_ok os (js ''flutter'') (world (detected os st))"
    by (simp add: provision_toolchain [OF nd] w)
qed

lemma snd_create_flutter_project:
  "snd (create_flutter_project os cwd r st) = snd (provision os cwd r (st\<lparr>log := []\<rparr>))"
  by (simp add: create_flutter_project_def split: prod.splits sum.splits)

text \<open>
  Claim C10. In a run that is not a dry run, the body of the handler throws the
  missing-toolchain error if and only if the probe for the wrapper (\<open>which fvm\<close>) and the
  probe for a direct Flutter (\<open>which flutter\<close>) both fail, and the handler returns the
  failure text of that error in exactly this case. When the wrapper is found, the
  toolchain check returns at once without an outside call, so on the wrapper's presence
  alone, and the whole run records no probe for \<open>flutter\<close>.
\<close>

theorem toolchain_preflight:
  assumes nd: "\<not> dryRun r"
  shows "(fst (provision os cwd r st) = Inl toolchain_missing \<longleftrightarrow>
            \<not> probe_ok os (js ''fvm'') (world st)
            \<and> \<not> probe_ok os (js ''flutter'') (world (detected os st)))
    \<and> ((\<exists>lines. fst (create_flutter_project os cwd r st)
                    = IsError (failure_text toolchain_missing lines)) \<longleftrightarrow>
            \<not> probe_ok os (js ''fvm'') (world st)
            \<and> \<not> probe_ok os (js ''flutter'') (world (detected os st)))
    \<and> (probe_ok os (js ''fvm'') (world st) \<longrightarrow>
          check_toolchain os (detected os st) = (Inr (), detected os st)
          \<and> (unprobed (js ''flutter'') st \<longrightarrow>
               unprobed (js ''flutter'') (snd (create_flutter_project os cwd r st))))"
proof (intro conjI impI)
  show "fst (provision os cwd r st) = Inl toolchain_missing \<longleftrightarrow>
            \<not> probe_ok os (js ''fvm'') (world st)
            \<and> \<not> probe_ok os (js ''flutter'') (world (detected os st))"
    by (rule provision_toolchain [OF nd])
  show "(\<exists>lines. fst (create_flutter_project os cwd r st)
                    = IsError (failure_text toolchain_missing lines)) \<longleftrightarrow>
            \<not> probe_ok os (js ''fvm'') (world st)
            \<and> \<not> probe_ok os (js ''flutter'') (world (detected os st))"
    by (rule handler_toolchain [OF nd])
next
  assume fvm: "probe_ok os (js ''fvm'') (world st)"
  then show "check_toolchain os (detected os st) = (Inr (), detected os st)"
    by (simp add: check_toolchain_wrapped detected_def)
  assume u: "unprobed (js ''flutter'') st"
  have "unprobed (js ''flutter'') (snd (provision os cwd r (st\<lparr>log := []\<rparr>)))"
    by (rule provision_no_flutter_probe [OF nd]) (use fvm u in \<open>simp_all add: unprobed_def\<close>)
  then show "unprobed (js ''flutter'') (snd (create_flutter_project os cwd r st))"
    by (simp add: snd_create_flutter_project)
qed

theorem toolchain_preflight_witness:
  "\<not> dryRun (logistics\<lparr>dry_run := None\<rparr>)
   \<and> probe_ok idle_os (js ''fvm'') (world work_state)
   \<and> unprobed (js ''flutter'') work_state
   \<and> fst (provision idle_os [js ''work''] (logistics\<lparr>dry_run := None\<rparr>) work_state)
       \<noteq> Inl toolchain_missing
   \<and> unprobed (js ''flutter'')
       (snd (create_flutter_project idle_os [js ''work''] (logistics\<lparr>dry_run := None\<rparr>)
               work_state))
   \<and> fst (provision bare_os [js ''work''] (logistics\<lparr>dry_run := None\<rparr>) work_state)
       = Inl toolchain_missing"
proof -
  let ?r = "logistics\<lparr>dry_run := None\<rparr>"
  have nd: "\<not> dryRun ?r"
    by (simp add: dryRun_def logistics_def)
  have f: "probe_ok idle_os (js ''fvm'') (world work_state)"
    by (simp add: probe_ok_def idle_os_def)
  have u: "unprobed (js ''flutter'') work_state"
    by (simp add: unprobed_def work_state_def)
  have b: "\<not> probe_ok bare_os (js ''fvm'') (world work_state)"
    "\<not> probe_ok bare_os (js ''flutter'') (world (detected bare_os work_state))"
    by (simp_all add: probe_ok_def bare_os_def)
  from toolchain_preflight [OF nd, of idle_os "[js ''work'']" work_state]
    toolchain_preflight [OF nd, of bare_os "[js ''work'']" work_state] nd f u b
  show ?thesis
    by simp
qed

section \<open>A missing flavor descriptor\<close>

lemma andThen_assoc: "andThen (andThen m f) g = andThen m (\<lambda>a. andThen (f a) g)"
  by (rule ext) (simp add: andThen_def split: prod.splits sum.splits)

lemma provision_split:
  "provision os cwd r = andThen (through_step5 os cwd r) (\<lambda>_. from_step6 os cwd r)"
  by (simp add: provision_def steps_def through_step5_def from_step6_def andThen_assoc)

lemma logs_andThen:
  "logs ks m \<Longrightarrow> (\<And>a. logs ks' (f a)) \<Longrightarrow> logs (ks @ ks') (andThen m f)"
  unfolding logs_def
proof (intro allI impI)
  fix st b st2
  assume m: "\<forall>st a st'. m st = (Inr a, st') \<longrightarrow>
        List.map_filter step_no (log st') = List.map_filter step_no (log st) @ ks"
    and f: "\<And>a. \<forall>st b st'. f a st = (Inr b, st') \<longrightarrow>
        List.map_filter step_no (log st') = List.map_filter step_no (log st) @ ks'"
    and r: "andThen m f st = (Inr b, st2)"
  from r show "List.map_filter step_no (log st2) = List.map_filter step_no (log st) @ ks @ ks'"
  proof (cases rule: andThen_cases)
    case (raised e)
    then show ?thesis by simp
  next
    case (passed a st1)
    with m f [of a] show ?thesis by simp
  qed
qed

lemma logs_silent: "(\<And>st a st'. m st = (Inr a, st') \<Longrightarrow> log st' = log st) \<Longrightarrow> logs [] m"
  by (auto simp: logs_def)

lemma logs_detectFvm: "logs [] (detectFvm os)"
  by (rule logs_silent) (auto simp: detectFvm_eq commandExists_eq)

lemma logs_commandExists: "logs [] (commandExists os c)"
  by (rule logs_silent) (auto simp: commandExists_eq)

lemma logs_write_useFvm: "logs [] (write_useFvm b)"
  by (rule logs_silent) (auto simp: write_useFvm_def)

lemma map_filter_app: "List.map_filter f (xs @ ys) = List.map_filter f xs @ List.map_filter f ys"
  by (simp add: List.map_filter_def)

lemma logs_header: "\<not> dryRun r \<Longrightarrow> logs [] (header cwd r)"
  by (simp add: logs_def header_nondry map_filter_app header_no_step)

lemma logs_preflight: "\<not> dryRun r \<Longrightarrow> logs [] (preflight os cwd r g)"
  by (rule logs_silent) (auto simp: preflight_nondry checked_def split: if_splits)

lemma run_log: "run os command args cwd extraEnv st = (res, st') \<Longrightarrow> log st' = log st"
  by (auto simp: run_def execFileAsync_def split: prod.splits exec_result.splits)

lemma logs_run: "logs [] (run os command args cwd extraEnv)"
  by (rule logs_silent) (rule run_log)

lemma logs_discard: "logs ks m \<Longrightarrow> logs ks (discard m)"
  unfolding discard_def
  using logs_andThen [of ks m "[]" "\<lambda>_. ok ()"] by (simp add: logs_def ok_def)

lemma logs_read_useFvm: "logs [] read_useFvm"
  by (rule logs_silent) (auto simp: read_useFvm_def)

lemma logs_existsSync: "logs [] (existsSync p)"
  by (rule logs_silent) (auto simp: existsSync_def)

lemma logs_push_plain: "step_no line = None \<Longrightarrow> logs [] (push line)"
  by (simp add: logs_def push_def List.map_filter_def)

lemma logs_push_step: "step_no line = Some k \<Longrightarrow> logs [k] (push line)"
  by (simp add: logs_def push_def List.map_filter_def)

lemma logs_eq: "logs ks m \<Longrightarrow> ks = ks' \<Longrightarrow> logs ks' m"
  by simp

lemma logs_if: "logs ks m \<Longrightarrow> logs ks n \<Longrightarrow> logs ks (if b then m else n)"
  by simp

lemma logs_step1: "\<not> dryRun r \<Longrightarrow> logs [1] (step1 os r)"
  unfolding step1_def
  apply simp
  apply (rule logs_eq)
   apply (rule logs_andThen, rule logs_read_useFvm)
   apply (rule logs_andThen, rule logs_push_step, rule step_no_stepMsg)
   apply (rule logs_andThen, rule logs_discard, rule logs_run)
   apply (rule logs_push_plain, simp add: step_no_other js_def)
  apply simp
  done

lemma logs_step2: "\<not> dryRun r \<Longrightarrow> logs [2] (step2 os cwd r)"
  unfolding step2_def
  apply simp
  apply (rule logs_eq)
   apply (rule logs_andThen, rule logs_read_useFvm)
   apply (rule logs_andThen, rule logs_push_step, rule step_no_stepMsg)
   apply (rule logs_andThen, rule logs_discard, rule logs_run)
   apply (rule logs_push_plain, simp add: step_no_other js_def)
  apply simp
  done

lemma logs_git_init: "logs [] (git_init os p)"
  unfolding git_init_def
  apply (rule logs_eq)
   apply (rule logs_andThen, rule logs_existsSync)
   apply (rule logs_if)
    apply (rule logs_eq)
     apply (rule logs_andThen, rule logs_run)
     apply (rule logs_push_plain, simp add: step_no_other js_def)
    apply simp
   apply (rule logs_push_plain, simp add: step_no_other js_def)
  apply simp
  done

lemma logs_git_hooks: "logs [] (git_hooks os p)"
  unfolding git_hooks_def
  apply (rule logs_eq)
   apply (rule logs_andThen, rule logs_existsSync)
   apply (rule logs_if)
    apply (rule logs_eq)
     apply (rule logs_andThen, rule logs_run)
     apply (rule logs_push_plain, simp add: step_no_other js_def)
    apply simp
   apply (rule logs_push_plain, simp add: step_no_other js_def)
  apply simp
  done

lemma logs_step3: "\<not> dryRun r \<Longrightarrow> logs [3] (step3 os cwd r)"
  unfolding step3_def
  apply simp
  apply (rule logs_eq)
   apply (rule logs_andThen, rule logs_push_step, rule step_no_stepMsg)
   apply (rule logs_andThen, rule logs_git_init)
   apply (rule logs_git_hooks)
  apply simp
  done

lemma logs_step4: "\<not> dryRun r \<Longrightarrow> logs [4] (step4 os cwd r)"
  unfolding step4_def
  apply simp
  apply (rule logs_eq)
   apply (rule logs_andThen, rule logs_read_useFvm)
   apply (rule logs_andThen, rule logs_push_step, rule step_no_stepMsg)
   apply (rule logs_andThen, rule logs_discard, rule logs_run)
   apply (rule logs_push_plain, simp add: step_no_other js_def)
  apply simp
  done

lemma logs_step5: "\<not> dryRun r \<Longrightarrow> logs [5] (step5 os cwd r)"
  unfolding step5_def
  apply simp
  apply (rule logs_eq)
   apply (rule logs_andThen, rule logs_read_useFvm)
   apply (rule logs_andThen, rule logs_push_step, rule step_no_stepMsg)
   apply (rule logs_andThen, rule logs_discard, rule logs_run)
   apply (rule logs_push_plain, simp add: step_no_other js_def)
  apply simp
  done

lemma logs_through_step5:
  assumes nd: "\<not> dryRun r"
  shows "logs [1, 2, 3, 4, 5] (through_step5 os cwd r)"
  unfolding through_step5_def
  apply (rule logs_eq)
   apply (rule logs_andThen, rule logs_detectFvm)
   apply (rule logs_andThen, rule logs_write_useFvm)
   apply (rule logs_andThen, rule logs_commandExists)
   apply (rule logs_andThen, rule logs_header [OF nd])
   apply (rule logs_andThen, rule logs_preflight [OF nd])
   apply (rule logs_andThen, rule logs_step1 [OF nd])
   apply (rule logs_andThen, rule logs_step2 [OF nd])
   apply (rule logs_andThen, rule logs_step3 [OF nd])
   apply (rule logs_andThen, rule logs_step4 [OF nd])
   apply (rule logs_step5 [OF nd])
  apply simp
  done

lemma last_line_push: "ensures (last_line l) (push l)"
  by (simp add: ensures_def push_def last_line_def)

lemma last_line_step5:
  "ensures (last_line ([0x2714] @ js '' Localisations generated'')) (step5 os cwd r)"
  unfolding step5_def
  by (intro ensures_andThen_snd last_line_push)

lemma last_line_through_step5:
  "ensures (last_line ([0x2714] @ js '' Localisations generated'')) (through_step5 os cwd r)"
  unfolding through_step5_def
  by (intro ensures_andThen_snd last_line_step5)

lemma step6_missing:
  assumes nd: "\<not> dryRun r"
    and absent: "fs (world st) (projectDir cwd r @ [js ''flavorizr.yaml'']) = None"
  shows "from_step6 os cwd r st =
           (Inl (flavorizr_missing (projectDir cwd r @ [js ''flavorizr.yaml''])),
            st\<lparr>log := log st @ [stepMsg 6 (js ''Updating flavorizr.yaml'')],
               trace := trace st @ [ExistsSync (projectDir cwd r @ [js ''flavorizr.yaml''])]\<rparr>)"
  using nd absent
  by (simp add: from_step6_def step6_def update_flavorizr_def andThen_def push_def
      existsSync_def throw_def)

text \<open>
  Claim C3, as amended. In a run that is not a dry run, if the steps 1 to 5 have passed
  and \<open>flavorizr.yaml\<close> is absent under the project location, the handler returns the
  failure of the missing descriptor (\<open>flavorizr.yaml not found at\<close> and the path). The
  log holds what it held at the end of step 5, whose last line is the completion line of
  step 5, followed by one more line, the start message of step 6: its step lines are
  those of the steps 1 to 6. After the test for the file nothing more is done.
\<close>

theorem flavorizr_missing_aborts:
  assumes nd: "\<not> dryRun r"
    and passed: "fst (through_step5 os cwd r (st\<lparr>log := []\<rparr>)) = Inr ()"
    and absent: "fs (world (snd (through_step5 os cwd r (st\<lparr>log := []\<rparr>))))
                   (projectDir cwd r @ [js ''flavorizr.yaml'']) = None"
  shows "create_flutter_project os cwd r st =
           (IsError (failure_text
                       (flavorizr_missing (projectDir cwd r @ [js ''flavorizr.yaml'']))
                       (log (snd (through_step5 os cwd r (st\<lparr>log := []\<rparr>)))
                        @ [stepMsg 6 (js ''Updating flavorizr.yaml'')])),
            (snd (through_step5 os cwd r (st\<lparr>log := []\<rparr>)))
              \<lparr>log := log (snd (through_step5 os cwd r (st\<lparr>log := []\<rparr>)))
                       @ [stepMsg 6 (js ''Updating flavorizr.yaml'')],
               trace := trace (snd (through_step5 os cwd r (st\<lparr>log := []\<rparr>)))
                       @ [ExistsSync (projectDir cwd r @ [js ''flavorizr.yaml''])]\<rparr>)
    \<and> last (log (snd (through_step5 os cwd r (st\<lparr>log := []\<rparr>))))
        = [0x2714] @ js '' Localisations generated''
    \<and> List.map_filter step_no (log (snd (create_flutter_project os cwd r st)))
        = [1, 2, 3, 4, 5, 6]"
proof -
  let ?st0 = "st\<lparr>log := []\<rparr>"
  obtain st5 where t: "through_step5 os cwd r ?st0 = (Inr (), st5)"
    using passed by (cases "through_step5 os cwd r ?st0") auto
  from absent t have a: "fs (world st5) (projectDir cwd r @ [js ''flavorizr.yaml'']) = None"
    by simp
  have p: "provision os cwd r ?st0 = from_step6 os cwd r st5"
    by (simp add: provision_split andThen_Inr [of "through_step5 os cwd r" ?st0, OF t])
  have c: "create_flutter_project os cwd r st =
           (IsError (failure_text
                       (flavorizr_missing (projectDir cwd r @ [js ''flavorizr.yaml'']))
                       (log st5 @ [stepMsg 6 (js ''Updating flavorizr.yaml'')])),
            st5\<lparr>log := log st5 @ [stepMsg 6 (js ''Updating flavorizr.yaml'')],
                trace := trace st5 @ [ExistsSync (projectDir cwd r @ [js ''flavorizr.yaml''])]\<rparr>)"
    by (simp add: create_flutter_project_def p step6_missing [OF nd a])
  have l: "last (log st5) = [0x2714] @ js '' Localisations generated''"
    using last_line_through_step5 [of os cwd r] t
    unfolding ensures_def last_line_def by blast
  have "List.map_filter step_no (log st5) = [1, 2, 3, 4, 5]"
    using logs_through_step5 [OF nd, of os cwd] t
    unfolding logs_def by (fastforce simp: List.map_filter_def)
  then have m: "List.map_filter step_no (log st5 @ [stepMsg 6 (js ''Updating flavorizr.yaml'')])
        = [1, 2, 3, 4, 5, 6]"
    by (simp add: map_filter_app) (simp add: List.map_filter_def step_no_stepMsg)
  from c l m t show ?thesis
    by simp
qed

lemma stepMsg_texts:
  "stepMsg (Suc 0) m = js ''[1/11] '' @ m" "stepMsg 2 m = js ''[2/11] '' @ m"
  "stepMsg 3 m = js ''[3/11] '' @ m" "stepMsg 4 m = js ''[4/11] '' @ m"
  "stepMsg 5 m = js ''[5/11] '' @ m" "stepMsg 6 m = js ''[6/11] '' @ m"
  "stepMsg 7 m = js ''[7/11] '' @ m" "stepMsg 8 m = js ''[8/11] '' @ m"
  "stepMsg 9 m = js ''[9/11] '' @ m" "stepMsg 10 m = js ''[10/11] '' @ m"
  "stepMsg 11 m = js ''[11/11] '' @ m"
  by (subst stepMsg_split, simp add: stepMsg_small)+

lemmas run_defs = create_flutter_project_def provision_def io_defs step_defs
  detectFvm_def commandExists_def execFileAsync_def run_def runInteractive_def
  existsSync_def readFileSync_def writeFileSync_def mkdirSync_def is_file_def
  check_toolchain_def check_directory_def git_init_def git_hooks_def
  update_flavorizr_def configure_android_def gradlePath_def proguardPath_def
  work_state_def work_world_def logistics_def dryRun_def projectDir_def
  parentDir_def fvmCmd_def fvmArgs_def starterArgs_def js_eq_iff Let_def

lemma plain_through_step5:
  "fst (through_step5 plain_os [js ''work''] (logistics\<lparr>dry_run := None\<rparr>)
          (work_state\<lparr>log := []\<rparr>)) = Inr ()"
  "fs (world (snd (through_step5 plain_os [js ''work''] (logistics\<lparr>dry_run := None\<rparr>)
                     (work_state\<lparr>log := []\<rparr>))))
     [js ''work'', js ''logistics_app'', js ''flavorizr.yaml''] = None"
  by (simp_all add: through_step5_def run_defs plain_os_def)

theorem flavorizr_missing_aborts_witness:
  "\<not> dryRun (logistics\<lparr>dry_run := None\<rparr>)
   \<and> fst (through_step5 plain_os [js ''work''] (logistics\<lparr>dry_run := None\<rparr>)
            (work_state\<lparr>log := []\<rparr>)) = Inr ()
   \<and> fs (world (snd (through_step5 plain_os [js ''work''] (logistics\<lparr>dry_run := None\<rparr>)
                       (work_state\<lparr>log := []\<rparr>))))
        [js ''work'', js ''logistics_app'', js ''flavorizr.yaml''] = None
   \<and> List.map_filter step_no
        (log (snd (create_flutter_project plain_os [js ''work'']
                     (logistics\<lparr>dry_run := None\<rparr>) work_state)))
       = [1, 2, 3, 4, 5, 6]"
proof -
  let ?r = "logistics\<lparr>dry_run := None\<rparr>"
  have nd: "\<not> dryRun ?r"
    by (simp add: dryRun_def logistics_def)
  have p: "projectDir [js ''work''] ?r = [js ''work'', js ''logistics_app'']"
    by (simp add: projectDir_def parentDir_def logistics_def)
  have a: "fs (world (snd (through_step5 plain_os [js ''work''] ?r (work_state\<lparr>log := []\<rparr>))))
             (projectDir [js ''work''] ?r @ [js ''flavorizr.yaml'']) = None"
    by (simp add: p plain_through_step5(2))
  from flavorizr_missing_aborts [OF nd plain_through_step5(1) a]
  have "List.map_filter step_no
          (log (snd (create_flutter_project plain_os [js ''work''] ?r work_state)))
        = [1, 2, 3, 4, 5, 6]"
    by blast
  with nd plain_through_step5 show ?thesis
    by blast
qed

text \<open>
  The claim as stated, that the log ends with the completion of step 5, fails: on a
  machine whose template has no flavor descriptor the last line of the returned log is
  the start message of step 6.
\<close>

theorem log_through_step5_counterexample:
  "fst (create_flutter_project plain_os [js ''work''] (logistics\<lparr>dry_run := None\<rparr>) work_state)
     = IsError (failure_text
         (js ''flavorizr.yaml not found at /work/logistics_app/flavorizr.yaml'')
         (log (snd (create_flutter_project plain_os [js ''work'']
                      (logistics\<lparr>dry_run := None\<rparr>) work_state))))
   \<and> last (log (snd (create_flutter_project plain_os [js ''work'']
                       (logistics\<lparr>dry_run := None\<rparr>) work_state)))
       = js ''[6/11] Updating flavorizr.yaml''
   \<and> last (log (snd (create_flutter_project plain_os [js ''work'']
                       (logistics\<lparr>dry_run := None\<rparr>) work_state)))
       \<noteq> [0x2714] @ js '' Localisations generated''"
  by (simp add: run_defs plain_os_def flavorizr_missing_def path_str_def stepMsg_texts js_def)

section \<open>The edits of the build script\<close>










lemma trimEnd_no_space: "trimEnd s \<noteq> [] \<Longrightarrow> \<not> is_space (last (trimEnd s))"
  unfolding trimEnd_def
  by (metis (no_types, lifting) dropWhile_eq_Nil_conv hd_dropWhile hd_rev rev_is_Nil_conv rev_rev_ident)



















section \<open>Step 11 without a match\<close>









section \<open>The interactive executor\<close>

lemma run_trace:
  "trace (snd (run os command args cwd extraEnv st))
     = trace st @ [Spawn command args cwd extraEnv]"
  by (simp add: run_def execFileAsync_def split: prod.splits exec_result.splits)

lemma runInteractive_eq:
  "runInteractive os command args cwd st =
     (if probe_ok os (js ''expect'') (world st)
      then run os (js ''expect'') [js ''-c'', expectScript (fullCmd command args)] cwd []
             (probed os (js ''expect'') st)
      else run os command args cwd [(js ''CI'', js ''true''), (js ''TERM'', js ''dumb'')]
             (probed os (js ''expect'') st))"
  by (simp add: runInteractive_def andThen_def commandExists_eq probed_def)

lemma prompt_source:
  "join (js ''|'') (map tcl_quote prompt_literals)
     = [0x5C] @ js ''(Y/n'' @ [0x5C] @ js '')|'' @ [0x5C] @ js ''(y/N'' @ [0x5C] @ js '')|''
       @ [0x5C] @ js ''[Y/n'' @ [0x5C] @ js '']|'' @ [0x5C] @ js ''[y/N'' @ [0x5C]
       @ js '']|proceed''"
  by (simp add: prompt_literals_def tcl_quote_def js_def)

lemma expectScript_lines:
  "expectScript full =
     join (js ''\<newline>'')
       [js ''set timeout 300'',
        js ''spawn '' @ full,
        js ''expect {'',
        js ''  -re {'' @ join (js ''|'') (map tcl_quote prompt_literals)
          @ js ''} { send \"y'' @ [0x5C] @ js ''r\"; exp_continue }'',
        js ''  timeout { exit 1 }'',
        js ''  eof'',
        js ''}'',
        js ''lassign [wait] pid spawnid os_error_flag value'',
        js ''exit $value'']"
  unfolding prompt_source by (simp add: expectScript_def js_def)

text \<open>
  Claim C4, as amended. \<open>runInteractive\<close> first probes for \<open>expect\<close>. When it is found,
  the command is not run directly: \<open>expect -c\<close> is run, in the working directory and
  with no added variable, on a script that sets the timeout to 300, spawns the command
  line (arguments with a space in double quotes), answers \<open>y\<close> and a carriage return and
  goes on watching whenever the output matches one of \<open>(Y/n)\<close>, \<open>(y/N)\<close>, \<open>[Y/n]\<close>,
  \<open>[y/N]\<close> or \<open>proceed\<close>, each in the case written, exits with status 1 on a
  timeout, and at the end of the output exits with the value that \<open>wait\<close> gives for the
  child; the outcome of \<open>runInteractive\<close> is that of this one call of \<open>run\<close>. When
  \<open>expect\<close> is not found, the command is run directly with exactly the two variables
  \<open>CI=true\<close> and \<open>TERM=dumb\<close> added, and no \<open>expect\<close> process is spawned.
\<close>

theorem interactive_executor:
  "(probe_ok os (js ''expect'') (world st) \<longrightarrow>
      runInteractive os command args cwd st
        = run os (js ''expect'') [js ''-c'', expectScript (fullCmd command args)] cwd []
            (probed os (js ''expect'') st)
      \<and> trace (snd (runInteractive os command args cwd st))
        = trace st @ [Spawn (js ''which'') [js ''expect''] None [],
                      Spawn (js ''expect'') [js ''-c'', expectScript (fullCmd command args)]
                        cwd []])
   \<and> (\<not> probe_ok os (js ''expect'') (world st) \<longrightarrow>
      runInteractive os command args cwd st
        = run os command args cwd [(js ''CI'', js ''true''), (js ''TERM'', js ''dumb'')]
            (probed os (js ''expect'') st)
      \<and> trace (snd (runInteractive os command args cwd st))
        = trace st @ [Spawn (js ''which'') [js ''expect''] None [],
                      Spawn command args cwd
                        [(js ''CI'', js ''true''), (js ''TERM'', js ''dumb'')]])
   \<and> fullCmd command args = join (js '' '') (map quote_arg (command # args))
   \<and> expectScript full =
       join (js ''\<newline>'')
         [js ''set timeout 300'',
          js ''spawn '' @ full,
          js ''expect {'',
          js ''  -re {'' @ join (js ''|'') (map tcl_quote prompt_literals)
            @ js ''} { send \"y'' @ [0x5C] @ js ''r\"; exp_continue }'',
          js ''  timeout { exit 1 }'',
          js ''  eof'',
          js ''}'',
          js ''lassign [wait] pid spawnid os_error_flag value'',
          js ''exit $value'']
   \<and> prompt_RE out = (\<exists>l \<in> set prompt_literals. occurs l out)
   \<and> prompt_RE (js ''Do you want to proceed? [Y/n]'')
   \<and> \<not> prompt_RE (js ''PROCEED? (Y/N)'')"
proof (intro conjI impI)
  show "expectScript full =
       join (js ''\<newline>'')
         [js ''set timeout 300'',
          js ''spawn '' @ full,
          js ''expect {'',
          js ''  -re {'' @ join (js ''|'') (map tcl_quote prompt_literals)
            @ js ''} { send \"y'' @ [0x5C] @ js ''r\"; exp_continue }'',
          js ''  timeout { exit 1 }'',
          js ''  eof'',
          js ''}'',
          js ''lassign [wait] pid spawnid os_error_flag value'',
          js ''exit $value'']"
    by (rule expectScript_lines)
  show "fullCmd command args = join (js '' '') (map quote_arg (command # args))"
    by (simp add: fullCmd_def)
  show "prompt_RE out = (\<exists>l \<in> set prompt_literals. occurs l out)"
    by (simp add: prompt_RE_def list_ex_iff)
  show "prompt_RE (js ''Do you want to proceed? [Y/n]'')"
    by (simp add: prompt_RE_def prompt_literals_def js_def)
  show "\<not> prompt_RE (js ''PROCEED? (Y/N)'')"
    by (simp add: prompt_RE_def prompt_literals_def js_def)
next
  assume h: "probe_ok os (js ''expect'') (world st)"
  then show r: "runInteractive os command args cwd st
        = run os (js ''expect'') [js ''-c'', expectScript (fullCmd command args)] cwd []
            (probed os (js ''expect'') st)"
    by (simp add: runInteractive_eq)
  show "trace (snd (runInteractive os command args cwd st))
        = trace st @ [Spawn (js ''which'') [js ''expect''] None [],
                      Spawn (js ''expect'') [js ''-c'', expectScript (fullCmd command args)]
                        cwd []]"
    by (simp add: r run_trace probed_def)
next
  assume h: "\<not> probe_ok os (js ''expect'') (world st)"
  then show r: "runInteractive os command args cwd st
        = run os command args cwd [(js ''CI'', js ''true''), (js ''TERM'', js ''dumb'')]
            (probed os (js ''expect'') st)"
    by (simp add: runInteractive_eq)
  show "trace (snd (runInteractive os command args cwd st))
        = trace st @ [Spawn (js ''which'') [js ''expect''] None [],
                      Spawn command args cwd
                        [(js ''CI'', js ''true''), (js ''TERM'', js ''dumb'')]]"
    by (simp add: r run_trace probed_def)
qed

theorem interactive_executor_witness:
  "probe_ok idle_os (js ''expect'') (world work_state)
   \<and> trace (snd (runInteractive idle_os (js ''fvm'')
                   [js ''flutter'', js ''pub'', js ''run'', js ''flutter_flavorizr'']
                   (Some [js ''work'']) work_state))
       = [Spawn (js ''which'') [js ''expect''] None [],
          Spawn (js ''expect'')
            [js ''-c'', expectScript (js ''fvm flutter pub run flutter_flavorizr'')]
            (Some [js ''work'']) []]
   \<and> \<not> probe_ok bare_os (js ''expect'') (world work_state)
   \<and> trace (snd (runInteractive bare_os (js ''flutter'')
                   [js ''pub'', js ''run'', js ''flutter_flavorizr'']
                   (Some [js ''work'']) work_state))
       = [Spawn (js ''which'') [js ''expect''] None [],
          Spawn (js ''flutter'') [js ''pub'', js ''run'', js ''flutter_flavorizr'']
            (Some [js ''work'']) [(js ''CI'', js ''true''), (js ''TERM'', js ''dumb'')]]"
proof -
  have a: "probe_ok idle_os (js ''expect'') (world work_state)"
    by (simp add: probe_ok_def idle_os_def)
  have b: "\<not> probe_ok bare_os (js ''expect'') (world work_state)"
    by (simp add: probe_ok_def bare_os_def)
  have f: "fullCmd (js ''fvm'') [js ''flutter'', js ''pub'', js ''run'', js ''flutter_flavorizr'']
             = js ''fvm flutter pub run flutter_flavorizr''"
    by (simp add: fullCmd_def quote_arg_def js_def)
  have t: "trace work_state = []"
    by (simp add: work_state_def)
  note i = interactive_executor [of idle_os work_state "js ''fvm''"
      "[js ''flutter'', js ''pub'', js ''run'', js ''flutter_flavorizr'']" "Some [js ''work'']"]
  note j = interactive_executor [of bare_os work_state "js ''flutter''"
      "[js ''pub'', js ''run'', js ''flutter_flavorizr'']" "Some [js ''work'']"]
  from i a have 1: "trace (snd (runInteractive idle_os (js ''fvm'')
                   [js ''flutter'', js ''pub'', js ''run'', js ''flutter_flavorizr'']
                   (Some [js ''work'']) work_state))
       = trace work_state @ [Spawn (js ''which'') [js ''expect''] None [],
          Spawn (js ''expect'')
            [js ''-c'', expectScript (fullCmd (js ''fvm'')
               [js ''flutter'', js ''pub'', js ''run'', js ''flutter_flavorizr''])]
            (Some [js ''work'']) []]"
    by blast
  from j b have 2: "trace (snd (runInteractive bare_os (js ''flutter'')
                   [js ''pub'', js ''run'', js ''flutter_flavorizr'']
                   (Some [js ''work'']) work_state))
       = trace work_state @ [Spawn (js ''which'') [js ''expect''] None [],
          Spawn (js ''flutter'') [js ''pub'', js ''run'', js ''flutter_flavorizr'']
            (Some [js ''work'']) [(js ''CI'', js ''true''), (js ''TERM'', js ''dumb'')]]"
    by blast
  from a b 1 2 show ?thesis
    by (simp only: f t append_Nil simp_thms)
qed

text \<open>
  The claim as stated, that the patterns are matched without regard to case, fails:
  the prompt \<open>(Y/N)\<close> matches the patterns when case is ignored, and the script's
  pattern does not match it.
\<close>

theorem prompt_case_counterexample:
  "spec_prompt_RE (js ''Overwrite files? (Y/N)'')
   \<and> \<not> prompt_RE (js ''Overwrite files? (Y/N)'')"
  by (simp add: spec_prompt_RE_def prompt_RE_def prompt_literals_def toLowerCase_unit_def js_def)

section \<open>Runner selection, display name, application identifier, config files\<close>

text \<open>
  Claim C6. In WRAPPED runner mode (\<open>useFvm\<close> set) the resolved command is the wrapper
  executable \<open>fvm\<close> and the logical command name becomes the first argument, ahead of the
  original arguments; in DIRECT mode the resolved command is the logical command name
  itself and the argument list is unchanged. This holds for every logical command, so in
  particular for \<open>dart\<close> and \<open>flutter\<close>.
\<close>

theorem runner_resolution:
  "fvmCmd True cmd = js ''fvm'' \<and> fvmArgs True cmd args = cmd # args
   \<and> fvmCmd False cmd = cmd \<and> fvmArgs False cmd args = args"
  by (simp add: fvmCmd_def fvmArgs_def)



text \<open>
  Claim C8. For each of the environment names \<open>dev\<close>, \<open>uat\<close> and \<open>prod\<close>, \<open>configJson\<close>
  serialises an object with exactly the four keys \<open>secretKey\<close>, \<open>baseUrl\<close>, \<open>xAPIKey\<close>
  and \<open>oneSignalKey\<close>, in which \<open>secretKey\<close> is the environment name in capitals and the
  other three values are empty strings.
\<close>

theorem config_json_shape:
  "map fst (config_object env)
     = [js ''secretKey'', js ''baseUrl'', js ''xAPIKey'', js ''oneSignalKey'']
   \<and> map snd (config_object env) = [toUpperCase env, [], [], []]
   \<and> toUpperCase (js ''dev'') = js ''DEV''
   \<and> toUpperCase (js ''uat'') = js ''UAT''
   \<and> toUpperCase (js ''prod'') = js ''PROD''
   \<and> configJson (js ''dev'') =
       js ''{\<newline>  \"secretKey\": \"DEV\",\<newline>  \"baseUrl\": \"\",\<newline>  \"xAPIKey\": \"\",\<newline>  \"oneSignalKey\": \"\"\<newline>}''
   \<and> configJson (js ''uat'') =
       js ''{\<newline>  \"secretKey\": \"UAT\",\<newline>  \"baseUrl\": \"\",\<newline>  \"xAPIKey\": \"\",\<newline>  \"oneSignalKey\": \"\"\<newline>}''
   \<and> configJson (js ''prod'') =
       js ''{\<newline>  \"secretKey\": \"PROD\",\<newline>  \"baseUrl\": \"\",\<newline>  \"xAPIKey\": \"\",\<newline>  \"oneSignalKey\": \"\"\<newline>}''"
  by (simp add: config_object_def configJson_def JSON_stringify2_def QuoteJSONString_def
      toUpperCase_def toUpperCase_unit_def is_az_def js_def
      is_lead_surrogate_def is_trail_surrogate_def)

end
